theory Spec2Isabelle
  imports Main
begin

section \<open>go/vt/vtgate/buffer/variables.go: the status variables of the buffer\<close>

text \<open>
  A \<open>stats.NewMultiCounters(name, help, labels)\<close> declaration is kept as the three
  arguments it is called with.
\<close>

record MultiCounters =
  name :: string
  help_text :: string
  labels :: "string list"

definition starts :: MultiCounters where
  "starts = \<lparr>name = ''BufferStarts'',
     help_text = ''How many times we started buffering, including dry-run'',
     labels = [''Keyspace'', ''ShardName'']\<rparr>"

definition stops :: MultiCounters where
  "stops = \<lparr>name = ''BufferStops'',
     help_text = ''How many times we triggered a buffering to stop, including dry-runs'',
     labels = [''Keyspace'', ''ShardName'', ''Reason'']\<rparr>"

definition failoverDurationSumMs :: MultiCounters where
  "failoverDurationSumMs = \<lparr>name = ''BufferFailoverDurationSumMs'',
     help_text = ''Cumulative sum of all failover durations'',
     labels = [''Keyspace'', ''ShardName'']\<rparr>"

definition utilizationSum :: MultiCounters where
  "utilizationSum = \<lparr>name = ''BufferUtilizationSum'',
     help_text = ''Cumulative sum of the max buffer utilization (in %) during each failover'',
     labels = [''Keyspace'', ''ShardName'']\<rparr>"

definition utilizationDryRunSum :: MultiCounters where
  "utilizationDryRunSum = \<lparr>name = ''BufferUtilizationDryRunSum'',
     help_text = ''Cumulative sum of the max *theoretical* buffer util (in %) during each failover'',
     labels = [''Keyspace'', ''ShardName'']\<rparr>"

definition requestsBuffered :: MultiCounters where
  "requestsBuffered = \<lparr>name = ''BufferRequestsBuffered'',
     help_text = ''How many requests were added to the buffer'',
     labels = [''Keyspace'', ''ShardName'']\<rparr>"

definition requestsBufferedDryRun :: MultiCounters where
  "requestsBufferedDryRun = \<lparr>name = ''BufferRequestsBufferedDryRun'',
     help_text = ''How many requests would've been added to the buffer (dry-run)'',
     labels = [''Keyspace'', ''ShardName'']\<rparr>"

definition requestsDrained :: MultiCounters where
  "requestsDrained = \<lparr>name = ''BufferRequestsDrained'',
     help_text = ''How many requests drained from the buffer'',
     labels = [''Keyspace'', ''ShardName'']\<rparr>"

definition requestsEvicted :: MultiCounters where
  "requestsEvicted = \<lparr>name = ''BufferRequestsEvicted'',
     help_text = ''How many requests were evicted early from the buffer'',
     labels = [''Keyspace'', ''ShardName'', ''Reason'']\<rparr>"

definition requestsSkipped :: MultiCounters where
  "requestsSkipped = \<lparr>name = ''BufferRequestsSkipped'',
     help_text = ''How many requests would've been buffered but were skipped (incl. dry-run)'',
     labels = [''Keyspace'', ''ShardName'', ''Reason'']\<rparr>"

text \<open>The second \<open>var\<close> block: the values published as gauges of the last failover.\<close>

definition lastFailoverDurationMs :: MultiCounters where
  "lastFailoverDurationMs = \<lparr>name = ''BufferLastFailoverDurationMs'',
     help_text = ''How long vtgate buffered requests during the last failover'',
     labels = [''Keyspace'', ''ShardName'']\<rparr>"

definition lastRequestsInFlightMax :: MultiCounters where
  "lastRequestsInFlightMax = \<lparr>name = ''BufferLastRequestsInFlightMax'',
     help_text = ''The max value of buffered requests in flight of the last failover'',
     labels = [''Keyspace'', ''ShardName'']\<rparr>"

definition lastRequestsDryRunMax :: MultiCounters where
  "lastRequestsDryRunMax = \<lparr>name = ''BufferLastRequestsDryRunMax'',
     help_text = ''Max # of requests which were seen during a dry-run buffering of the last failover'',
     labels = [''Keyspace'', ''ShardName'']\<rparr>"

text \<open>
  Every \<open>stats.NewMultiCounters\<close> declaration of the file, in source order. (The file
  declares one more variable, \<open>bufferSize = stats.NewInt("BufferSize")\<close>, a plain
  integer gauge that has no labels at all and is not a multi-counter.)
\<close>

definition bufferCounters :: "MultiCounters list" where
  "bufferCounters =
     [starts, stops, failoverDurationSumMs, utilizationSum, utilizationDryRunSum,
      requestsBuffered, requestsBufferedDryRun, requestsDrained, requestsEvicted,
      requestsSkipped, lastFailoverDurationMs, lastRequestsInFlightMax, lastRequestsDryRunMax]"

subsection \<open>The reason labels\<close>

type_synonym stopReason = string
type_synonym evictedReason = string
type_synonym skippedReason = string

definition stopFailoverEndDetected :: stopReason where
  "stopFailoverEndDetected = ''NewMasterSeen''"
definition stopMaxFailoverDurationExceeded :: stopReason where
  "stopMaxFailoverDurationExceeded = ''MaxDurationExceeded''"
definition stopShutdown :: stopReason where
  "stopShutdown = ''Shutdown''"

definition stopReasons :: "stopReason list" where
  "stopReasons = [stopFailoverEndDetected, stopMaxFailoverDurationExceeded, stopShutdown]"

definition evictedContextDone :: evictedReason where
  "evictedContextDone = ''ContextDone''"
definition evictedBufferFull :: evictedReason where
  "evictedBufferFull = ''BufferFull''"
definition evictedWindowExceeded :: evictedReason where
  "evictedWindowExceeded = ''WindowExceeded''"

definition evictReasons :: "evictedReason list" where
  "evictReasons = [evictedContextDone, evictedBufferFull, evictedWindowExceeded]"

definition skippedBufferFull :: skippedReason where
  "skippedBufferFull = ''BufferFull''"
definition skippedDisabled :: skippedReason where
  "skippedDisabled = ''Disabled''"
definition skippedShutdown :: skippedReason where
  "skippedShutdown = ''Shutdown''"
definition skippedLastReparentTooRecent :: skippedReason where
  "skippedLastReparentTooRecent = ''LastReparentTooRecent''"
definition skippedLastFailoverTooRecent :: skippedReason where
  "skippedLastFailoverTooRecent = ''LastFailoverTooRecent''"

definition skippedReasons :: "skippedReason list" where
  "skippedReasons = [skippedBufferFull, skippedDisabled, skippedShutdown,
     skippedLastReparentTooRecent, skippedLastFailoverTooRecent]"

subsection \<open>The statistics store and \<open>initVariablesForShard\<close>\<close>

text \<open>
  The process-wide statistics state: the value of each counter at each label set, absent
  while the label set has never been written (the "no value for this label set" of the
  source's comment). A label set is the list of label values, in the order of the
  counter's \<open>labels\<close>.
\<close>

type_synonym stats = "string \<times> string list \<rightharpoonup> int"

text \<open>
  Modelled from the spec: \<open>stats.MultiCounters.Set\<close> and \<open>Add\<close> of the package
  \<open>go/stats\<close>, which is not among the sources. The statistics sink holds
  "counters keyed by {Keyspace, ShardName} and, for stop/eviction/skip events, an
  additional {Reason} label": \<open>Set\<close> stores a value at the label set, \<open>Add\<close> adds to
  the value there (starting from 0).
\<close>

definition Set_counter :: "MultiCounters \<Rightarrow> string list \<Rightarrow> int \<Rightarrow> stats \<Rightarrow> stats" where
  "Set_counter c names v st = st((name c, names) \<mapsto> v)"

definition Get_counter :: "MultiCounters \<Rightarrow> string list \<Rightarrow> stats \<Rightarrow> int" where
  "Get_counter c names st = (case st (name c, names) of None \<Rightarrow> 0 | Some v \<Rightarrow> v)"

definition Add_counter :: "MultiCounters \<Rightarrow> string list \<Rightarrow> int \<Rightarrow> stats \<Rightarrow> stats" where
  "Add_counter c names v st = st((name c, names) \<mapsto> Get_counter c names st + v)"

text \<open>
  \<open>for _, reason := range reasons { key := append(statsKey, string(reason)); c.Set(key, 0) }\<close>
\<close>

definition initReasons :: "MultiCounters \<Rightarrow> string list \<Rightarrow> string list \<Rightarrow> stats \<Rightarrow> stats" where
  "initReasons c statsKey reasons st =
     fold (\<lambda>reason s. Set_counter c (statsKey @ [reason]) 0 s) reasons st"

definition initVariablesForShard :: "string list \<Rightarrow> stats \<Rightarrow> stats" where
  "initVariablesForShard statsKey st0 =
     (let st1 = Set_counter starts statsKey 0 st0;
          st2 = initReasons stops statsKey stopReasons st1;
          st3 = Set_counter failoverDurationSumMs statsKey 0 st2;
          st4 = Set_counter utilizationSum statsKey 0 st3;
          st5 = Set_counter utilizationDryRunSum statsKey 0 st4;
          st6 = Set_counter requestsBuffered statsKey 0 st5;
          st7 = Set_counter requestsBufferedDryRun statsKey 0 st6;
          st8 = Set_counter requestsDrained statsKey 0 st7;
          st9 = initReasons requestsEvicted statsKey evictReasons st8
      in initReasons requestsSkipped statsKey skippedReasons st9)"

section \<open>actionnode: the descriptor of an action on a tablet, shard or keyspace\<close>

subsection \<open>The action names and the action states\<close>

definition TABLET_ACTION_SLEEP :: string where "TABLET_ACTION_SLEEP = ''Sleep''"
definition TABLET_ACTION_SET_RDONLY :: string where "TABLET_ACTION_SET_RDONLY = ''SetReadOnly''"
definition TABLET_ACTION_SET_RDWR :: string where "TABLET_ACTION_SET_RDWR = ''SetReadWrite''"
definition TABLET_ACTION_CHANGE_TYPE :: string where "TABLET_ACTION_CHANGE_TYPE = ''ChangeType''"
definition TABLET_ACTION_SCRAP :: string where "TABLET_ACTION_SCRAP = ''Scrap''"
definition TABLET_ACTION_DEMOTE_MASTER :: string where "TABLET_ACTION_DEMOTE_MASTER = ''DemoteMaster''"
definition TABLET_ACTION_PROMOTE_SLAVE :: string where "TABLET_ACTION_PROMOTE_SLAVE = ''PromoteSlave''"
definition TABLET_ACTION_SLAVE_WAS_PROMOTED :: string where "TABLET_ACTION_SLAVE_WAS_PROMOTED = ''SlaveWasPromoted''"
definition TABLET_ACTION_RESTART_SLAVE :: string where "TABLET_ACTION_RESTART_SLAVE = ''RestartSlave''"
definition TABLET_ACTION_SLAVE_WAS_RESTARTED :: string where "TABLET_ACTION_SLAVE_WAS_RESTARTED = ''SlaveWasRestarted''"
definition TABLET_ACTION_BREAK_SLAVES :: string where "TABLET_ACTION_BREAK_SLAVES = ''BreakSlaves''"
definition TABLET_ACTION_STOP_SLAVE :: string where "TABLET_ACTION_STOP_SLAVE = ''StopSlave''"
definition TABLET_ACTION_STOP_SLAVE_MINIMUM :: string where "TABLET_ACTION_STOP_SLAVE_MINIMUM = ''StopSlaveMinimum''"
definition TABLET_ACTION_START_SLAVE :: string where "TABLET_ACTION_START_SLAVE = ''StartSlave''"
definition TABLET_ACTION_EXTERNALLY_REPARENTED :: string where "TABLET_ACTION_EXTERNALLY_REPARENTED = ''TabletExternallyReparented''"
definition TABLET_ACTION_MASTER_POSITION :: string where "TABLET_ACTION_MASTER_POSITION = ''MasterPosition''"
definition TABLET_ACTION_REPARENT_POSITION :: string where "TABLET_ACTION_REPARENT_POSITION = ''ReparentPosition''"
definition TABLET_ACTION_SLAVE_STATUS :: string where "TABLET_ACTION_SLAVE_STATUS = ''SlaveStatus''"
definition TABLET_ACTION_WAIT_SLAVE_POSITION :: string where "TABLET_ACTION_WAIT_SLAVE_POSITION = ''WaitSlavePosition''"
definition TABLET_ACTION_WAIT_BLP_POSITION :: string where "TABLET_ACTION_WAIT_BLP_POSITION = ''WaitBlpPosition''"
definition TABLET_ACTION_STOP_BLP :: string where "TABLET_ACTION_STOP_BLP = ''StopBlp''"
definition TABLET_ACTION_START_BLP :: string where "TABLET_ACTION_START_BLP = ''StartBlp''"
definition TABLET_ACTION_RUN_BLP_UNTIL :: string where "TABLET_ACTION_RUN_BLP_UNTIL = ''RunBlpUntil''"
definition TABLET_ACTION_GET_SCHEMA :: string where "TABLET_ACTION_GET_SCHEMA = ''GetSchema''"
definition TABLET_ACTION_RELOAD_SCHEMA :: string where "TABLET_ACTION_RELOAD_SCHEMA = ''ReloadSchema''"
definition TABLET_ACTION_EXECUTE_FETCH :: string where "TABLET_ACTION_EXECUTE_FETCH = ''ExecuteFetch''"
definition TABLET_ACTION_GET_PERMISSIONS :: string where "TABLET_ACTION_GET_PERMISSIONS = ''GetPermissions''"
definition TABLET_ACTION_GET_SLAVES :: string where "TABLET_ACTION_GET_SLAVES = ''GetSlaves''"
definition TABLET_ACTION_PREFLIGHT_SCHEMA :: string where "TABLET_ACTION_PREFLIGHT_SCHEMA = ''PreflightSchema''"
definition TABLET_ACTION_APPLY_SCHEMA :: string where "TABLET_ACTION_APPLY_SCHEMA = ''ApplySchema''"
definition TABLET_ACTION_EXECUTE_HOOK :: string where "TABLET_ACTION_EXECUTE_HOOK = ''ExecuteHook''"
definition TABLET_ACTION_SNAPSHOT :: string where "TABLET_ACTION_SNAPSHOT = ''Snapshot''"
definition TABLET_ACTION_SNAPSHOT_SOURCE_END :: string where "TABLET_ACTION_SNAPSHOT_SOURCE_END = ''SnapshotSourceEnd''"
definition TABLET_ACTION_RESERVE_FOR_RESTORE :: string where "TABLET_ACTION_RESERVE_FOR_RESTORE = ''ReserveForRestore''"
definition TABLET_ACTION_RESTORE :: string where "TABLET_ACTION_RESTORE = ''Restore''"
definition TABLET_ACTION_MULTI_SNAPSHOT :: string where "TABLET_ACTION_MULTI_SNAPSHOT = ''MultiSnapshot''"
definition TABLET_ACTION_MULTI_RESTORE :: string where "TABLET_ACTION_MULTI_RESTORE = ''MultiRestore''"
definition TABLET_ACTION_PING :: string where "TABLET_ACTION_PING = ''Ping''"
definition SHARD_ACTION_REPARENT :: string where "SHARD_ACTION_REPARENT = ''ReparentShard''"
definition SHARD_ACTION_EXTERNALLY_REPARENTED :: string where "SHARD_ACTION_EXTERNALLY_REPARENTED = ''ShardExternallyReparented''"
definition SHARD_ACTION_REBUILD :: string where "SHARD_ACTION_REBUILD = ''RebuildShard''"
definition SHARD_ACTION_CHECK :: string where "SHARD_ACTION_CHECK = ''CheckShard''"
definition SHARD_ACTION_APPLY_SCHEMA :: string where "SHARD_ACTION_APPLY_SCHEMA = ''ApplySchemaShard''"
definition SHARD_ACTION_SET_SERVED_TYPES :: string where "SHARD_ACTION_SET_SERVED_TYPES = ''SetShardServedTypes''"
definition SHARD_ACTION_MULTI_RESTORE :: string where "SHARD_ACTION_MULTI_RESTORE = ''ShardMultiRestore''"
definition SHARD_ACTION_MIGRATE_SERVED_TYPES :: string where "SHARD_ACTION_MIGRATE_SERVED_TYPES = ''MigrateServedTypes''"
definition SHARD_ACTION_UPDATE_SHARD :: string where "SHARD_ACTION_UPDATE_SHARD = ''UpdateShard''"
definition KEYSPACE_ACTION_REBUILD :: string where "KEYSPACE_ACTION_REBUILD = ''RebuildKeyspace''"
definition KEYSPACE_ACTION_APPLY_SCHEMA :: string where "KEYSPACE_ACTION_APPLY_SCHEMA = ''ApplySchemaKeyspace''"
definition KEYSPACE_ACTION_SET_SHARDING_INFO :: string where "KEYSPACE_ACTION_SET_SHARDING_INFO = ''SetKeyspaceShardingInfo''"
definition KEYSPACE_ACTION_MIGRATE_SERVED_FROM :: string where "KEYSPACE_ACTION_MIGRATE_SERVED_FROM = ''MigrateServedFrom''"
definition SRV_SHARD_ACTION_REBUILD :: string where "SRV_SHARD_ACTION_REBUILD = ''RebuildSrvShard''"

type_synonym ActionState = string

definition ACTION_STATE_QUEUED :: ActionState where "ACTION_STATE_QUEUED = ''''"
definition ACTION_STATE_RUNNING :: ActionState where "ACTION_STATE_RUNNING = ''Running''"
definition ACTION_STATE_FAILED :: ActionState where "ACTION_STATE_FAILED = ''Failed''"
definition ACTION_STATE_DONE :: ActionState where "ACTION_STATE_DONE = ''Done''"

subsection \<open>\<open>ActionNode\<close> and \<open>ActionNodeFromJson\<close>\<close>

text \<open>
  The Go types that \<open>ActionNodeFromJson\<close> allocates for \<open>Args\<close> and \<open>Reply\<close>
  before it decodes into them; \<open>AnyValue\<close> is the \<open>var a interface{}\<close> that receives
  the value when the field stays nil.
\<close>

datatype target =
    StringPtr | SchemaChange | SchemaChangeResult | Hook | HookResult
  | SnapshotArgs | SnapshotReply | SnapshotSourceEndArgs | ReserveForRestoreArgs
  | RestoreArgs | MultiSnapshotArgs | MultiSnapshotReply | MultiRestoreArgs | AnyValue

text \<open>
  \<open>'v\<close> is what a decoded \<open>Args\<close> or \<open>Reply\<close> holds; the two fields are \<open>None\<close>
  for Go's nil interface.
\<close>

record 'v ActionNode =
  Action :: string
  ActionGuid :: string
  Error :: string
  State :: ActionState
  Pid :: int
  Path :: string
  Args :: "(target \<times> 'v) option"
  Reply :: "(target \<times> 'v) option"

datatype action_error =
    DecodeError string
  | LockingOnlyShard string
  | LockingOnlyKeyspace string
  | LockingOnlySrvShard string
  | RpcOnly string
  | Unrecognized string

text \<open>
  \<open>encoding/json\<close> is Go's standard library, so the decoder is a parameter, a
  \<open>json.Decoder\<close> seen as a function of the input that is left to read.
  \<open>decodeNode s\<close> is \<open>decoder.Decode(node)\<close> on a fresh \<open>ActionNode\<close>: an error
  message, or the five serialised fields (Action, ActionGuid, Error, State, Pid) and the
  input that remains. \<open>decodeInto t s\<close> is \<open>decoder.Decode\<close> into a value of the Go
  type \<open>t\<close>.
\<close>

record 'v Decoder =
  decodeNode :: "string \<Rightarrow> string + (string \<times> string \<times> string \<times> ActionState \<times> int) \<times> string"
  decodeInto :: "target \<Rightarrow> string \<Rightarrow> string + 'v \<times> string"

text \<open>
  The \<open>switch node.Action\<close>, in the order of its cases: the types allocated for
  \<open>Args\<close> and \<open>Reply\<close>, or the error returned.
\<close>

definition argsAndReplyTypes :: "string \<Rightarrow> action_error + target option \<times> target option" where
  "argsAndReplyTypes a =
    (if a = TABLET_ACTION_PING then Inr (None, None)
     else if a = TABLET_ACTION_PREFLIGHT_SCHEMA then Inr (Some StringPtr, Some SchemaChangeResult)
     else if a = TABLET_ACTION_APPLY_SCHEMA then Inr (Some SchemaChange, Some SchemaChangeResult)
     else if a = TABLET_ACTION_EXECUTE_HOOK then Inr (Some Hook, Some HookResult)
     else if a = TABLET_ACTION_SNAPSHOT then Inr (Some SnapshotArgs, Some SnapshotReply)
     else if a = TABLET_ACTION_SNAPSHOT_SOURCE_END then Inr (Some SnapshotSourceEndArgs, None)
     else if a = TABLET_ACTION_RESERVE_FOR_RESTORE then Inr (Some ReserveForRestoreArgs, None)
     else if a = TABLET_ACTION_RESTORE then Inr (Some RestoreArgs, None)
     else if a = TABLET_ACTION_MULTI_SNAPSHOT
       then Inr (Some MultiSnapshotArgs, Some MultiSnapshotReply)
     else if a = TABLET_ACTION_MULTI_RESTORE then Inr (Some MultiRestoreArgs, None)
     else if a \<in> set [SHARD_ACTION_REPARENT, SHARD_ACTION_EXTERNALLY_REPARENTED,
         SHARD_ACTION_REBUILD, SHARD_ACTION_CHECK, SHARD_ACTION_APPLY_SCHEMA,
         SHARD_ACTION_SET_SERVED_TYPES, SHARD_ACTION_MULTI_RESTORE,
         SHARD_ACTION_MIGRATE_SERVED_TYPES, SHARD_ACTION_UPDATE_SHARD]
       then Inl (LockingOnlyShard a)
     else if a \<in> set [KEYSPACE_ACTION_REBUILD, KEYSPACE_ACTION_APPLY_SCHEMA,
         KEYSPACE_ACTION_SET_SHARDING_INFO, KEYSPACE_ACTION_MIGRATE_SERVED_FROM]
       then Inl (LockingOnlyKeyspace a)
     else if a = SRV_SHARD_ACTION_REBUILD then Inl (LockingOnlySrvShard a)
     else if a \<in> set [TABLET_ACTION_SLEEP, TABLET_ACTION_SET_RDONLY, TABLET_ACTION_SET_RDWR,
         TABLET_ACTION_CHANGE_TYPE, TABLET_ACTION_SCRAP, TABLET_ACTION_GET_SCHEMA,
         TABLET_ACTION_RELOAD_SCHEMA, TABLET_ACTION_EXECUTE_FETCH,
         TABLET_ACTION_GET_PERMISSIONS, TABLET_ACTION_SLAVE_STATUS,
         TABLET_ACTION_WAIT_SLAVE_POSITION, TABLET_ACTION_MASTER_POSITION,
         TABLET_ACTION_REPARENT_POSITION, TABLET_ACTION_DEMOTE_MASTER,
         TABLET_ACTION_PROMOTE_SLAVE, TABLET_ACTION_SLAVE_WAS_PROMOTED,
         TABLET_ACTION_RESTART_SLAVE, TABLET_ACTION_SLAVE_WAS_RESTARTED,
         TABLET_ACTION_BREAK_SLAVES, TABLET_ACTION_STOP_SLAVE,
         TABLET_ACTION_STOP_SLAVE_MINIMUM, TABLET_ACTION_START_SLAVE,
         TABLET_ACTION_EXTERNALLY_REPARENTED, TABLET_ACTION_GET_SLAVES,
         TABLET_ACTION_WAIT_BLP_POSITION, TABLET_ACTION_STOP_BLP, TABLET_ACTION_START_BLP,
         TABLET_ACTION_RUN_BLP_UNTIL]
       then Inl (RpcOnly a)
     else Inl (Unrecognized a))"

text \<open>
  \<open>if field != nil { err = decoder.Decode(field) } else { var a interface{};
  err = decoder.Decode(&a) }\<close>: the field holds the decoded value, or stays nil.
\<close>

definition decodeField ::
  "'v Decoder \<Rightarrow> target option \<Rightarrow> string \<Rightarrow> action_error + (target \<times> 'v) option \<times> string" where
  "decodeField dec field s =
    (case field of
       Some t \<Rightarrow> (case decodeInto dec t s of
                    Inl e \<Rightarrow> Inl (DecodeError e)
                  | Inr (v, rest) \<Rightarrow> Inr (Some (t, v), rest))
     | None \<Rightarrow> (case decodeInto dec AnyValue s of
                  Inl e \<Rightarrow> Inl (DecodeError e)
                | Inr (v, rest) \<Rightarrow> Inr (None, rest)))"

definition ActionNodeFromJson ::
  "'v Decoder \<Rightarrow> string \<Rightarrow> string \<Rightarrow> action_error + 'v ActionNode" where
  "ActionNodeFromJson dec data path =
    (case decodeNode dec data of
       Inl e \<Rightarrow> Inl (DecodeError e)
     | Inr ((action, guid, err, st, pid), rest1) \<Rightarrow>
        (case argsAndReplyTypes action of
           Inl e \<Rightarrow> Inl e
         | Inr (argsT, replyT) \<Rightarrow>
            (case decodeField dec argsT rest1 of
               Inl e \<Rightarrow> Inl e
             | Inr (args, rest2) \<Rightarrow>
                (case decodeField dec replyT rest2 of
                   Inl e \<Rightarrow> Inl e
                 | Inr (reply, rest3) \<Rightarrow>
                     Inr \<lparr>Action = action, ActionGuid = guid, Error = err, State = st,
                          Pid = pid, Path = path, Args = args, Reply = reply\<rparr>))))"

subsection \<open>\<open>ActionNodeCanBePurged\<close> and \<open>ActionNodeIsStale\<close>\<close>

definition ActionNodeCanBePurged :: "'v Decoder \<Rightarrow> string \<Rightarrow> bool" where
  "ActionNodeCanBePurged dec data =
    (case ActionNodeFromJson dec data '''' of
       Inl err \<Rightarrow> True
     | Inr actionNode \<Rightarrow> if State actionNode = ACTION_STATE_RUNNING then False else True)"

definition ActionNodeIsStale :: "'v Decoder \<Rightarrow> string \<Rightarrow> bool" where
  "ActionNodeIsStale dec data =
    (case ActionNodeFromJson dec data '''' of
       Inl err \<Rightarrow> False
     | Inr actionNode \<Rightarrow> State actionNode \<noteq> ACTION_STATE_RUNNING)"

text \<open>
  A small decoder to run the functions on: an input that starts with an opening brace
  decodes to a Ping node whose State is the text after the brace, followed by two empty
  objects for Args and Reply; any other input is a syntax error.
\<close>

definition braceDecoder :: "unit Decoder" where
  "braceDecoder =
     \<lparr>decodeNode = (\<lambda>s. case s of
          [] \<Rightarrow> Inl ''EOF''
        | c # cs \<Rightarrow> if c = CHR ''{'' then Inr ((''Ping'', ''guid'', '''', cs, 0), ''{}{}'')
                    else Inl ''invalid character''),
      decodeInto = (\<lambda>t s. if take 2 s = ''{}'' then Inr ((), drop 2 s) else Inl ''EOF'')\<rparr>"

section \<open>Go library functions used by the workflow\<close>

text \<open>
  \<open>strings.Join\<close>, the \<open>%v\<close> verb of \<open>fmt\<close> on an \<open>int\<close> and on a \<open>bool\<close>, and
  \<open>strconv.Atoi\<close> (base 10, an optional sign, at least one digit, nothing else, and
  the value within the 64-bit \<open>int\<close>), as Go's standard library documents them.
\<close>

definition Join :: "string list \<Rightarrow> string \<Rightarrow> string" where
  "Join elems sep = (case elems of [] \<Rightarrow> [] | e # es \<Rightarrow> e @ concat (map (\<lambda>x. sep @ x) es))"

definition digitChar :: "nat \<Rightarrow> char" where
  "digitChar d = ''0123456789'' ! d"

definition digitVal :: "char \<Rightarrow> nat" where
  "digitVal c = of_char c - 48"

definition isDigit :: "char \<Rightarrow> bool" where
  "isDigit c = (48 \<le> (of_char c :: nat) \<and> (of_char c :: nat) \<le> 57)"

fun digits :: "nat \<Rightarrow> string" where
  "digits n = (if n < 10 then [digitChar n] else digits (n div 10) @ [digitChar (n mod 10)])"

declare digits.simps [simp del]

definition FormatInt :: "int \<Rightarrow> string" where
  "FormatInt i = (if i < 0 then CHR ''-'' # digits (nat (- i)) else digits (nat i))"

definition FormatBool :: "bool \<Rightarrow> string" where
  "FormatBool b = (if b then ''true'' else ''false'')"

definition digitsValue :: "string \<Rightarrow> nat" where
  "digitsValue ds = foldl (\<lambda>n c. 10 * n + digitVal c) 0 ds"

definition Atoi :: "string \<Rightarrow> int option" where
  "Atoi s =
    (let neg = (s \<noteq> [] \<and> hd s = CHR ''-'');
         ds = (if s \<noteq> [] \<and> (hd s = CHR ''-'' \<or> hd s = CHR ''+'') then tl s else s)
     in if ds = [] \<or> \<not> list_all isDigit ds then None
        else let v = (if neg then - int (digitsValue ds) else int (digitsValue ds))
             in if - (2 ^ 63) \<le> v \<and> v < 2 ^ 63 then Some v else None)"

section \<open>go/vt/workflow/keyspaceresharding/workflow.go\<close>

definition codeVersion :: int where "codeVersion = 1"
definition keyspaceReshardingFactoryName :: string where
  "keyspaceReshardingFactoryName = ''keyspace_resharding''"
definition phaseName :: string where "phaseName = ''create_workflows''"

datatype TaskState = TaskNotStarted | TaskRunning | TaskDone

record Task =
  Task_Id :: string
  Task_State :: TaskState
  Attributes :: "string \<rightharpoonup> string"

record WorkflowCheckpoint =
  CodeVersion :: int
  Tasks :: "string \<rightharpoonup> Task"
  Settings :: "string \<rightharpoonup> string"

text \<open>
  What a call ends with besides a checkpoint: an \<open>error\<close> value returned with its
  message, or a run-time panic of Go.
\<close>

datatype failure = Errorf string | Panic string

text \<open>\<open>fmt.Sprintf("%s/%v", phaseName, i)\<close>\<close>

definition taskID :: "nat \<Rightarrow> string" where
  "taskID i = phaseName @ ''/'' @ FormatInt (int i)"

subsection \<open>\<open>initCheckpoint\<close>\<close>

text \<open>
  The first loop. \<open>shardToSplit[0]\<close> and \<open>shardToSplit[1]\<close> panic when the element
  of \<open>shardsToSplit\<close> has no such component.
\<close>

fun countShards :: "nat \<Rightarrow> nat \<Rightarrow> string list list list \<Rightarrow> failure + nat \<times> nat" where
  "countShards sourceShards destShards [] = Inr (sourceShards, destShards)"
| "countShards sourceShards destShards (shardToSplit # rest) =
     (if length shardToSplit \<le> 0 then Inl (Panic ''index out of range [0]'')
      else if length shardToSplit \<le> 1 then Inl (Panic ''index out of range [1]'')
      else countShards (sourceShards + length (shardToSplit ! 0))
             (destShards + length (shardToSplit ! 1)) rest)"

text \<open>
  The second loop, at index \<open>i\<close> with \<open>usedVtworkersIdx\<close>. The slice expression
  \<open>vtworkers[usedVtworkersIdx:usedVtworkersIdx+len(shardToSplit[1])]\<close> panics when its
  upper bound is beyond the slice (taken here with capacity equal to length, as
  \<open>strings.Split\<close> in \<open>Init\<close> returns it).
\<close>

fun makeTasks ::
  "string list \<Rightarrow> nat \<Rightarrow> nat \<Rightarrow> string list list list \<Rightarrow> (string \<rightharpoonup> Task)
     \<Rightarrow> failure + (string \<rightharpoonup> Task)" where
  "makeTasks vtworkers i usedVtworkersIdx [] tasks = Inr tasks"
| "makeTasks vtworkers i usedVtworkersIdx (shardToSplit # rest) tasks =
     (if length shardToSplit \<le> 0 then Inl (Panic ''index out of range [0]'')
      else if length shardToSplit \<le> 1 then Inl (Panic ''index out of range [1]'')
      else if length vtworkers < usedVtworkersIdx + length (shardToSplit ! 1)
        then Inl (Panic ''slice bounds out of range'')
      else makeTasks vtworkers (i + 1) (usedVtworkersIdx + length (shardToSplit ! 1)) rest
        (tasks(taskID i \<mapsto>
           \<lparr>Task_Id = taskID i,
            Task_State = TaskNotStarted,
            Attributes = map_of
              [(''source_shards'', Join (shardToSplit ! 0) '',''),
               (''destination_shards'', Join (shardToSplit ! 1) '',''),
               (''vtworkers'',
                  Join (take (length (shardToSplit ! 1)) (drop usedVtworkersIdx vtworkers)) '','')]\<rparr>)))"

definition initCheckpoint ::
  "string \<Rightarrow> string list \<Rightarrow> string list list list \<Rightarrow> string \<Rightarrow> string \<Rightarrow> string \<Rightarrow> string
     \<Rightarrow> bool \<Rightarrow> failure + WorkflowCheckpoint" where
  "initCheckpoint keyspace vtworkers shardsToSplit minHealthyRdonlyTablets splitCmd
      splitDiffDestTabletType phaseEnableApprovals skipStartWorkflows =
    (case countShards 0 0 shardsToSplit of
       Inl p \<Rightarrow> Inl p
     | Inr (sourceShards, destShards) \<Rightarrow>
        if sourceShards = 0 \<or> destShards = 0
          then Inl (Errorf ''invalid source or destination shards'')
        else if length vtworkers \<noteq> destShards
          then Inl (Errorf (''there are '' @ FormatInt (int (length vtworkers)) @ '' vtworkers, ''
                 @ FormatInt (int destShards)
                 @ '' destination shards: the number should be same''))
        else
          let splitRatio = destShards div sourceShards in
          if (case Atoi minHealthyRdonlyTablets of
                None \<Rightarrow> True
              | Some minHealthyRdonlyTabletsVal \<Rightarrow> minHealthyRdonlyTabletsVal < int splitRatio)
            then Inl (Errorf (''there are not enough rdonly tablets in source shards. ''
                   @ ''You need at least '' @ FormatInt (int splitRatio) @ '', it got: ''
                   @ minHealthyRdonlyTablets))
          else
            (case makeTasks vtworkers 0 0 shardsToSplit Map.empty of
               Inl p \<Rightarrow> Inl p
             | Inr tasks \<Rightarrow>
                 Inr \<lparr>CodeVersion = codeVersion,
                      Tasks = tasks,
                      Settings = map_of
                        [(''vtworkers'', Join vtworkers '',''),
                         (''min_healthy_rdonly_tablets'', minHealthyRdonlyTablets),
                         (''split_cmd'', splitCmd),
                         (''split_diff_dest_tablet_type'', splitDiffDestTabletType),
                         (''phase_enable_approvals'', phaseEnableApprovals),
                         (''skip_start_workflows'', FormatBool skipStartWorkflows),
                         (''workflows_count'', FormatInt (int (length shardsToSplit))),
                         (''keyspace'', keyspace)]\<rparr>))"

subsection \<open>\<open>findSourceAndDestinationShards\<close>\<close>

text \<open>
  \<open>topo.ShardInfo\<close> with what the function reads of it, and
  \<open>topotools.OverlappingShards\<close>. The result of \<open>topotools.FindOverlappingShards\<close>
  (not among the sources) is the argument: an error, or the overlapping shards.
\<close>

record ShardInfo =
  ShardName :: string
  ServedTypes :: "string list"

record OverlappingShards =
  Left :: "ShardInfo list"
  Right :: "ShardInfo list"

fun sourceAndDestination ::
  "OverlappingShards list \<Rightarrow> string list list list \<Rightarrow> failure + string list list list" where
  "sourceAndDestination [] shardsToSplit = Inr shardsToSplit"
| "sourceAndDestination (os # rest) shardsToSplit =
     (if Left os = [] then Inl (Panic ''index out of range [0]'')
      else if length (ServedTypes (Left os ! 0)) > 0
        then sourceAndDestination rest
               (shardsToSplit @ [[[ShardName (Left os ! 0)], map ShardName (Right os)]])
      else if Right os = [] then Inl (Panic ''index out of range [0]'')
      else sourceAndDestination rest
             (shardsToSplit @ [[[ShardName (Right os ! 0)], map ShardName (Left os)]]))"

definition findSourceAndDestinationShards ::
  "string + OverlappingShards list \<Rightarrow> failure + string list list list" where
  "findSourceAndDestinationShards overlapping =
     (case overlapping of
        Inl err \<Rightarrow> Inl (Errorf err)
      | Inr overlappingShards \<Rightarrow> sourceAndDestination overlappingShards [])"

subsection \<open>Notions for the statements about \<open>initCheckpoint\<close>\<close>

text \<open>
  The quantities that the statements about \<open>initCheckpoint\<close> speak of: the total
  number of source shards and of destination shards across \<open>shardsToSplit\<close>.
\<close>

definition totalSourceShards :: "string list list list \<Rightarrow> nat" where
  "totalSourceShards shardsToSplit = sum_list (map (\<lambda>s. length (s ! 0)) shardsToSplit)"

definition totalDestShards :: "string list list list \<Rightarrow> nat" where
  "totalDestShards shardsToSplit = sum_list (map (\<lambda>s. length (s ! 1)) shardsToSplit)"

text \<open>The slice of the vtworkers that the task of index \<open>i\<close> is given.\<close>

definition workersOf :: "string list \<Rightarrow> string list list list \<Rightarrow> nat \<Rightarrow> string list" where
  "workersOf vtworkers shardsToSplit i =
     take (length (shardsToSplit ! i ! 1))
       (drop (totalDestShards (take i shardsToSplit)) vtworkers)"

text \<open>
  Every element of \<open>shardsToSplit\<close> has its two components,
  \<open>[][]string{sourceShards, destinationShards}\<close>, as
  \<open>findSourceAndDestinationShards\<close> builds them.
\<close>

definition wellFormed :: "string list list list \<Rightarrow> bool" where
  "wellFormed shardsToSplit = list_all (\<lambda>s. 2 \<le> length s) shardsToSplit"

section \<open>The failover buffer of one shard\<close>

text \<open>
  Of the package \<open>buffer\<close> only the status variables are among the sources; the buffer
  itself (\<open>ShardBuffer\<close>, its queue and its state machine) is missing. The
  definitions of this section follow the specification (its sections 3 and 4) and count
  their events in the counters of \<open>variables.go\<close>. Time stamps and durations are
  natural numbers (milliseconds), and so are the terms of a primary.
\<close>

subsection \<open>Data model\<close>

text \<open>
  Modelled from the spec: \<open>ShardKey\<close>, "(keyspace: string, shard: string)", the
  outcomes of a buffered request, "one of {Released, EvictedBufferFull,
  EvictedWindowExceeded, EvictedContextDone}", and \<open>BufferedRequest\<close>, the parked caller
  with its key, \<open>enqueuedAt\<close>, its single-use release signal (here the number that
  identifies it) and its outcome, "set exactly once" (\<open>None\<close> until then).
\<close>

type_synonym ShardKey = "string \<times> string"

datatype Outcome = Released | EvictedBufferFull | EvictedWindowExceeded | EvictedContextDone

record BufferedRequest =
  requestKey :: ShardKey
  enqueuedAt :: nat
  releaseSignal :: nat
  outcome :: "Outcome option"

text \<open>
  Modelled from the spec: the state of a \<open>ShardBuffer\<close>, "state: {Idle, Buffering,
  Draining}", "queue: ordered sequence of BufferedRequest, FIFO", "startedAt",
  "lastFailoverEnd / lastReparentSeen", "dryRun". Three more fields hold what the
  algorithms of the specification speak of without naming a field: the last observed
  term of a primary, the peak of the count of (in a dry run: would-be) queued requests of
  the episode, and the number of the next release signal.
\<close>

datatype bufferState = Idle | Buffering | Draining

record ShardBuffer =
  shardKey :: ShardKey
  state :: bufferState
  queue :: "BufferedRequest list"
  startedAt :: "nat option"
  lastFailoverEnd :: "nat option"
  lastReparentSeen :: "nat option"
  dryRun :: bool
  lastTerm :: "nat option"
  peak :: nat
  nextSignal :: nat

text \<open>
  Modelled from the spec: the configuration, "maxBufferSize (int > 0),
  maxFailoverDuration (duration), minTimeBetweenFailovers (duration, cooldown window),
  dryRunEnabled (bool), bufferingEnabled (bool, global kill switch)".
\<close>

record Configuration =
  maxBufferSize :: nat
  maxFailoverDuration :: nat
  minTimeBetweenFailovers :: nat
  dryRunEnabled :: bool
  bufferingEnabled :: bool

text \<open>
  Modelled from the spec: the two decisions that it leaves to a policy. "The exact rule
  for escalating from dry-run to live buffering on a given shard ... is left as a
  pluggable decision function" (\<open>promoted\<close>), and "if eviction is disallowed by policy
  (e.g. a future strict mode)" (\<open>evictionAllowed\<close>; "the chosen default policy is FIFO
  eviction of the oldest").
\<close>

record Policy =
  promoted :: "ShardBuffer \<Rightarrow> bool"
  evictionAllowed :: bool

text \<open>
  Modelled from the spec: what an operation of the buffer acts on. The buffer itself; the
  statistics sink, "an injected statistics-sink interface" whose counters are those of
  variables.go; and the release signals fired so far, in the order of firing, each request
  with the one outcome that was delivered to it.
\<close>

record world =
  buffer :: ShardBuffer
  counters :: stats
  fired :: "BufferedRequest list"

subsection \<open>Statistics and release signals\<close>

text \<open>
  Modelled from the spec: the key of the shard's counters, "counters keyed by {Keyspace,
  ShardName}"; the methods of the sink, "incr(key, reason)/observe(key, value)"; and the
  delivery of an outcome, "exactly one outcome write", which fires the release signal.
\<close>

definition shardStatsKey :: "ShardBuffer \<Rightarrow> string list" where
  "shardStatsKey sb = [fst (shardKey sb), snd (shardKey sb)]"

definition incr :: "MultiCounters \<Rightarrow> string list \<Rightarrow> world \<Rightarrow> world" where
  "incr c names w = w\<lparr>counters := Add_counter c names 1 (counters w)\<rparr>"

definition observe :: "MultiCounters \<Rightarrow> string list \<Rightarrow> int \<Rightarrow> world \<Rightarrow> world" where
  "observe c names v w = w\<lparr>counters := Add_counter c names v (counters w)\<rparr>"

definition deliver :: "BufferedRequest \<Rightarrow> Outcome \<Rightarrow> world \<Rightarrow> world" where
  "deliver r oc w = w\<lparr>fired := fired w @ [r\<lparr>outcome := Some oc\<rparr>]\<rparr>"

text \<open>
  Modelled from the spec: the creation of a buffer, "one instance per ShardKey, created on
  first failure signal", Idle and empty; its counters start at 0, as
  \<open>initVariablesForShard\<close> of variables.go sets them.
\<close>

definition newShardBuffer :: "ShardKey \<Rightarrow> stats \<Rightarrow> world" where
  "newShardBuffer k st =
     \<lparr>buffer = \<lparr>shardKey = k, state = Idle, queue = [], startedAt = None,
                 lastFailoverEnd = None, lastReparentSeen = None, dryRun = False,
                 lastTerm = None, peak = 0, nextSignal = 0\<rparr>,
      counters = initVariablesForShard [fst k, snd k] st,
      fired = []\<rparr>"

subsection \<open>Cooldown tracker\<close>

text \<open>
  Modelled from the spec: \<open>shouldSkip(key, now) -> (bool, reason)\<close>. "If the shard's last
  failover end or last reparent timestamp is within minTimeBetweenFailovers of now, skip -
  record reason LastFailoverTooRecent or LastReparentTooRecent".
\<close>

definition tooRecent :: "nat option \<Rightarrow> Configuration \<Rightarrow> nat \<Rightarrow> bool" where
  "tooRecent t cfg now =
     (case t of None \<Rightarrow> False | Some t0 \<Rightarrow> now < t0 + minTimeBetweenFailovers cfg)"

definition shouldSkip :: "Configuration \<Rightarrow> ShardBuffer \<Rightarrow> nat \<Rightarrow> bool \<times> skippedReason" where
  "shouldSkip cfg sb now =
     (if tooRecent (lastFailoverEnd sb) cfg now then (True, skippedLastFailoverTooRecent)
      else if tooRecent (lastReparentSeen sb) cfg now then (True, skippedLastReparentTooRecent)
      else (False, []))"

definition recordFailoverEnd :: "nat \<Rightarrow> ShardBuffer \<Rightarrow> ShardBuffer" where
  "recordFailoverEnd now sb = sb\<lparr>lastFailoverEnd := Some now\<rparr>"

definition recordReparentSeen :: "nat \<Rightarrow> ShardBuffer \<Rightarrow> ShardBuffer" where
  "recordReparentSeen now sb = sb\<lparr>lastReparentSeen := Some now\<rparr>"

subsection \<open>Enqueue\<close>

text \<open>
  Modelled from the spec: what \<open>enqueueAndWait\<close> does for its caller. It returns
  \<open>NotBuffered\<close> at once, or it parks the caller ("block the caller on its release
  signal") on the signal of the request it has queued; the outcome is delivered later,
  when that signal fires.
\<close>

datatype waitResult = NotBuffered | Parked nat

text \<open>
  Modelled from the spec: Idle to Buffering, "Sets startedAt = now, decides dryRun for
  this episode", "dryRun (true if dryRunEnabled and, e.g., not yet been promoted to live
  buffering for this shard)"; the transition is counted in \<open>starts\<close>.
\<close>

definition startBuffering :: "Configuration \<Rightarrow> Policy \<Rightarrow> nat \<Rightarrow> world \<Rightarrow> world" where
  "startBuffering cfg pol now w =
     incr starts (shardStatsKey (buffer w))
       (w\<lparr>buffer := (buffer w)\<lparr>state := Buffering, startedAt := Some now,
              dryRun := (dryRunEnabled cfg \<and> \<not> promoted pol (buffer w)), peak := 0\<rparr>\<rparr>)"

text \<open>
  Modelled from the spec: "eviction of the single oldest entry to make room, recording
  EvictedBufferFull for the evicted entry".
\<close>

definition evictOldest :: "world \<Rightarrow> world" where
  "evictOldest w =
     (case queue (buffer w) of
        [] \<Rightarrow> w
      | r # rest \<Rightarrow>
          incr requestsEvicted (shardStatsKey (buffer w) @ [evictedBufferFull])
            (deliver r EvictedBufferFull (w\<lparr>buffer := (buffer w)\<lparr>queue := rest\<rparr>\<rparr>)))"

text \<open>
  Modelled from the spec: "Append a new BufferedRequest, block the caller on its release
  signal"; the peak of the queue length of the episode is kept for the utilization.
\<close>

definition appendRequest :: "nat \<Rightarrow> world \<Rightarrow> waitResult \<times> world" where
  "appendRequest now w =
     (let sb = buffer w;
          r = \<lparr>requestKey = shardKey sb, enqueuedAt = now, releaseSignal = nextSignal sb,
               outcome = None\<rparr>;
          q = queue sb @ [r]
      in (Parked (nextSignal sb),
          incr requestsBuffered (shardStatsKey sb)
            (w\<lparr>buffer := sb\<lparr>queue := q, peak := max (peak sb) (length q),
                   nextSignal := nextSignal sb + 1\<rparr>\<rparr>)))"

text \<open>
  Modelled from the spec: the enqueue algorithm, "called while state is Idle or
  Buffering" (in the transient state Draining the model fails safe to \<open>NotBuffered\<close>).
  Step 1 is the cooldown check of an Idle buffer and the start of an episode; step 2 the
  dry run, "record requestsBufferedDryRun, return NotBuffered immediately"; step 3 the
  full buffer, "if len(queue) == maxBufferSize: attempt eviction of the single oldest
  entry ...; if eviction is disallowed by policy instead reject the new entrant with
  skippedBufferFull and return NotBuffered" (also when there is no entry to evict:
  "no request could be evicted and therefore we had to skip this request", as the
  comment on \<open>skippedBufferFull\<close> in variables.go has it); step 4 the append. In a dry
  run every call counts as one more request that would be queued.
\<close>

definition enqueueAndWait ::
  "Configuration \<Rightarrow> Policy \<Rightarrow> nat \<Rightarrow> world \<Rightarrow> waitResult \<times> world" where
  "enqueueAndWait cfg pol now w =
     (if state (buffer w) = Draining then (NotBuffered, w)
      else if state (buffer w) = Idle \<and> fst (shouldSkip cfg (buffer w) now)
        then (NotBuffered,
              incr requestsSkipped
                (shardStatsKey (buffer w) @ [snd (shouldSkip cfg (buffer w) now)]) w)
      else
        let w1 = (if state (buffer w) = Idle then startBuffering cfg pol now w else w) in
        if dryRun (buffer w1)
          then (NotBuffered,
                incr requestsBufferedDryRun (shardStatsKey (buffer w1))
                  (w1\<lparr>buffer := (buffer w1)\<lparr>peak := peak (buffer w1) + 1\<rparr>\<rparr>))
        else if length (queue (buffer w1)) = maxBufferSize cfg
          then (if evictionAllowed pol \<and> queue (buffer w1) \<noteq> []
                then appendRequest now (evictOldest w1)
                else (NotBuffered,
                      incr requestsSkipped (shardStatsKey (buffer w1) @ [skippedBufferFull]) w1))
        else appendRequest now w1)"

subsection \<open>Drain, timeout, cancellation and shutdown\<close>

text \<open>
  Modelled from the spec: the release loop of a drain, "releases every currently queued
  request with outcome Released, in FIFO order"; each release is counted in
  \<open>requestsDrained\<close>.
\<close>

fun releaseAll :: "BufferedRequest list \<Rightarrow> world \<Rightarrow> world" where
  "releaseAll [] w = w"
| "releaseAll (r # rest) w =
     releaseAll rest
       (incr requestsDrained (shardStatsKey (buffer w))
          (deliver r Released (w\<lparr>buffer := (buffer w)\<lparr>queue := rest\<rparr>\<rparr>)))"

text \<open>
  Modelled from the spec: "Buffer utilization (peak concurrently-queued count during an
  episode, divided by maxBufferSize)", in percent as the comments in variables.go have it
  ("Buffer size = 10. Two consecutive failovers with maximum values of 15 and 5 seen
  requests each add up to a value of 200%").
\<close>

definition utilization :: "Configuration \<Rightarrow> ShardBuffer \<Rightarrow> int" where
  "utilization cfg sb = int (peak sb * 100 div maxBufferSize cfg)"

text \<open>
  Modelled from the spec: the end of an episode. The stop reason is counted, the duration
  of the failover and the utilization are accumulated ("once per completed episode,
  separately for dry-run and live episodes"), then the buffer "clears startedAt and
  transitions to Idle", and the cooldown tracker records the end of the failover.
\<close>

definition stopBuffering :: "Configuration \<Rightarrow> stopReason \<Rightarrow> nat \<Rightarrow> world \<Rightarrow> world" where
  "stopBuffering cfg reason now w =
     (let sb = buffer w;
          k = shardStatsKey sb;
          duration = (case startedAt sb of None \<Rightarrow> 0 | Some s \<Rightarrow> now - s);
          w1 = incr stops (k @ [reason]) w;
          w2 = observe failoverDurationSumMs k (int duration) w1;
          w3 = observe (if dryRun sb then utilizationDryRunSum else utilizationSum) k
                 (utilization cfg sb) w2
      in w3\<lparr>buffer := recordFailoverEnd now (sb\<lparr>state := Idle, startedAt := None\<rparr>)\<rparr>)"

text \<open>Modelled from the spec: Buffering to Draining to Idle.\<close>

definition drain :: "Configuration \<Rightarrow> stopReason \<Rightarrow> nat \<Rightarrow> world \<Rightarrow> world" where
  "drain cfg reason now w =
     (let w1 = w\<lparr>buffer := (buffer w)\<lparr>state := Draining\<rparr>\<rparr>;
          w2 = releaseAll (queue (buffer w1)) w1
      in stopBuffering cfg reason now w2)"

text \<open>
  Modelled from the spec: \<open>RecordPrimaryObserved(key, term)\<close>, at the buffer of the key.
  "Stale/duplicate terms must be ignored by the buffer": a term that is not newer than
  the last observed one changes nothing. A newer term is recorded, and it "triggers
  ShardBuffer.drain for the matching shard if currently Buffering", with the stop reason
  \<open>NewMasterSeen\<close>; the cooldown tracker records the reparent on that path.
\<close>

definition RecordPrimaryObserved :: "Configuration \<Rightarrow> nat \<Rightarrow> nat \<Rightarrow> world \<Rightarrow> world" where
  "RecordPrimaryObserved cfg primaryTerm now w =
     (if (case lastTerm (buffer w) of None \<Rightarrow> False | Some t \<Rightarrow> primaryTerm \<le> t) then w
      else
        let w1 = w\<lparr>buffer := (buffer w)\<lparr>lastTerm := Some primaryTerm\<rparr>\<rparr> in
        if state (buffer w1) = Buffering
          then drain cfg stopFailoverEndDetected now
                 (w1\<lparr>buffer := recordReparentSeen now (buffer w1)\<rparr>)
          else w1)"

text \<open>
  Modelled from the spec: the timer of an episode, "on elapsed time since startedAt
  exceeding maxFailoverDuration - a background timer per buffering episode forces drain
  with stop reason MaxDurationExceeded"; the deadline is
  "startedAt + maxFailoverDuration".
\<close>

definition timerFired :: "Configuration \<Rightarrow> nat \<Rightarrow> world \<Rightarrow> world" where
  "timerFired cfg now w =
     (if state (buffer w) = Buffering
         \<and> (case startedAt (buffer w) of
               None \<Rightarrow> False
             | Some s \<Rightarrow> s + maxFailoverDuration cfg \<le> now)
      then drain cfg stopMaxFailoverDurationExceeded now w
      else w)"

text \<open>
  Modelled from the spec: cancellation of a parked caller, "Cancellation records
  EvictedContextDone"; when the request is no longer queued its outcome has been
  delivered, and "the loser's outcome write is a no-op".
\<close>

definition contextDone :: "nat \<Rightarrow> world \<Rightarrow> world" where
  "contextDone sig w =
     (case filter (\<lambda>r. releaseSignal r = sig) (queue (buffer w)) of
        [] \<Rightarrow> w
      | r # _ \<Rightarrow>
          incr requestsEvicted (shardStatsKey (buffer w) @ [evictedContextDone])
            (deliver r EvictedContextDone
               (w\<lparr>buffer := (buffer w)
                    \<lparr>queue := filter (\<lambda>r. releaseSignal r \<noteq> sig) (queue (buffer w))\<rparr>\<rparr>)))"

text \<open>
  Modelled from the spec: the part of \<open>Shutdown\<close> that one buffer sees, "Buffering to
  Idle (immediate): on manager Shutdown, with every queued request receiving
  EvictedContextDone/Shutdown instead of Released".
\<close>

fun evictAll :: "BufferedRequest list \<Rightarrow> world \<Rightarrow> world" where
  "evictAll [] w = w"
| "evictAll (r # rest) w =
     evictAll rest
       (incr requestsEvicted (shardStatsKey (buffer w) @ [evictedContextDone])
          (deliver r EvictedContextDone (w\<lparr>buffer := (buffer w)\<lparr>queue := rest\<rparr>\<rparr>)))"

definition shutdownBuffer :: "Configuration \<Rightarrow> nat \<Rightarrow> world \<Rightarrow> world" where
  "shutdownBuffer cfg now w =
     (if state (buffer w) = Buffering
      then stopBuffering cfg stopShutdown now (evictAll (queue (buffer w)) w)
      else w)"

subsection \<open>Runs of a buffer\<close>

text \<open>
  Modelled from the spec: the histories of a buffer. Its operations are serialised ("all
  mutation of a ShardBuffer's queue and state must be serialized"), so a history is a
  sequence of events, each with its time: a call of \<open>enqueueAndWait\<close>, a call of
  \<open>RecordPrimaryObserved\<close> with a term, the timer of the episode, the cancellation of
  the caller parked on a signal, and the shutdown.
\<close>

datatype event =
    Enqueue nat
  | PrimaryObserved nat nat
  | TimerFired nat
  | ContextDone nat nat
  | Shutdown nat

fun eventTime :: "event \<Rightarrow> nat" where
  "eventTime (Enqueue now) = now"
| "eventTime (PrimaryObserved primaryTerm now) = now"
| "eventTime (TimerFired now) = now"
| "eventTime (ContextDone sig now) = now"
| "eventTime (Shutdown now) = now"

fun step :: "Configuration \<Rightarrow> Policy \<Rightarrow> event \<Rightarrow> world \<Rightarrow> world" where
  "step cfg pol (Enqueue now) w = snd (enqueueAndWait cfg pol now w)"
| "step cfg pol (PrimaryObserved primaryTerm now) w = RecordPrimaryObserved cfg primaryTerm now w"
| "step cfg pol (TimerFired now) w = timerFired cfg now w"
| "step cfg pol (ContextDone sig now) w = contextDone sig w"
| "step cfg pol (Shutdown now) w = shutdownBuffer cfg now w"

definition run :: "Configuration \<Rightarrow> Policy \<Rightarrow> event list \<Rightarrow> world \<Rightarrow> world" where
  "run cfg pol evs w = fold (step cfg pol) evs w"

text \<open>The events of a history happen at times that do not decrease.\<close>

definition clockMonotone :: "nat \<Rightarrow> event list \<Rightarrow> bool" where
  "clockMonotone t0 evs = sorted (t0 # map eventTime evs)"

subsection \<open>Completed episodes of a history\<close>

text \<open>
  Modelled from the spec: an episode, "one continuous Buffering-to-Idle interval for a
  shard". A step completes
  one when it takes the buffer from Buffering to Idle. \<open>completedEpisodes\<close> lists the
  episodes that a history completes, in order, each with whether it was a dry run and
  with its utilization; the two sums add up the utilizations of the live and of the
  dry-run episodes.
\<close>

definition episodeEnd :: "Configuration \<Rightarrow> world \<Rightarrow> world \<Rightarrow> (bool \<times> int) list" where
  "episodeEnd cfg w w' =
     (if state (buffer w) = Buffering \<and> state (buffer w') = Idle
      then [(dryRun (buffer w), utilization cfg (buffer w))] else [])"




subsection \<open>The load of an episode, read off the history\<close>







subsection \<open>Consistency of a buffer\<close>

text \<open>
  Modelled from the spec: the invariants of its data model that speak of one buffer,
  "state == Buffering iff startedAt is non-nil" and that Draining is "transient, held
  only for the duration of the release loop"; an Idle buffer and a dry run hold no
  request, and in a live episode the peak is at least the length of the queue.
\<close>

definition consistent :: "ShardBuffer \<Rightarrow> bool" where
  "consistent sb \<longleftrightarrow>
     state sb \<noteq> Draining
     \<and> (state sb = Buffering \<longleftrightarrow> startedAt sb \<noteq> None)
     \<and> (state sb = Idle \<longrightarrow> queue sb = [])
     \<and> (dryRun sb \<longrightarrow> queue sb = [])
     \<and> (\<not> dryRun sb \<longrightarrow> length (queue sb) \<le> peak sb)"

subsection \<open>The scenarios of the specification\<close>

text \<open>
  Modelled from the spec: the configuration of its end-to-end scenarios
  ("maxBufferSize=2", "maxFailoverDuration=100ms", "minTimeBetweenFailovers=1s"), live and
  with dry run enabled, the default policy (eviction of the oldest, no promotion to live
  buffering), and two buffers of the shard ks/0: one with two parked requests ("Enqueue
  R1, R2 (both park)"), one that has started a dry-run episode.
\<close>

definition scenarioConfiguration :: Configuration where
  "scenarioConfiguration =
     \<lparr>maxBufferSize = 2, maxFailoverDuration = 100, minTimeBetweenFailovers = 1000,
      dryRunEnabled = False, bufferingEnabled = True\<rparr>"

definition dryRunConfiguration :: Configuration where
  "dryRunConfiguration = scenarioConfiguration\<lparr>dryRunEnabled := True\<rparr>"

definition defaultPolicy :: Policy where
  "defaultPolicy = \<lparr>promoted = (\<lambda>sb. False), evictionAllowed = True\<rparr>"

definition request :: "nat \<Rightarrow> nat \<Rightarrow> BufferedRequest" where
  "request t sig =
     \<lparr>requestKey = (''ks'', ''0''), enqueuedAt = t, releaseSignal = sig, outcome = None\<rparr>"

definition twoParked :: world where
  "twoParked = run scenarioConfiguration defaultPolicy [Enqueue 1, Enqueue 2]
     (newShardBuffer (''ks'', ''0'') Map.empty)"

definition dryRunStarted :: world where
  "dryRunStarted = run dryRunConfiguration defaultPolicy [Enqueue 1]
     (newShardBuffer (''ks'', ''0'') Map.empty)"

section \<open>Properties of the status variables\<close>

lemmas counter_defs =
  starts_def stops_def failoverDurationSumMs_def utilizationSum_def utilizationDryRunSum_def
  requestsBuffered_def requestsBufferedDryRun_def requestsDrained_def requestsEvicted_def
  requestsSkipped_def lastFailoverDurationMs_def lastRequestsInFlightMax_def
  lastRequestsDryRunMax_def

lemmas reason_defs =
  stopReasons_def stopFailoverEndDetected_def stopMaxFailoverDurationExceeded_def
  stopShutdown_def evictReasons_def evictedContextDone_def evictedBufferFull_def
  evictedWindowExceeded_def skippedReasons_def skippedBufferFull_def skippedDisabled_def
  skippedShutdown_def skippedLastReparentTooRecent_def skippedLastFailoverTooRecent_def

text \<open>
  C1. The reason labels are exactly the closed sets of the specification, character for
  character: the stop reasons are NewMasterSeen, MaxDurationExceeded and Shutdown; the
  eviction reasons are ContextDone, BufferFull and WindowExceeded; the skip reasons are
  BufferFull, Disabled, Shutdown, LastReparentTooRecent and LastFailoverTooRecent. The
  slices \<open>stopReasons\<close>, \<open>evictReasons\<close> and \<open>skippedReasons\<close> enumerate each set
  completely and list no label twice.
\<close>

theorem reason_enumerations_exact:
  "set stopReasons = {''NewMasterSeen'', ''MaxDurationExceeded'', ''Shutdown''}
   \<and> distinct stopReasons \<and> length stopReasons = 3
   \<and> set evictReasons = {''ContextDone'', ''BufferFull'', ''WindowExceeded''}
   \<and> distinct evictReasons \<and> length evictReasons = 3
   \<and> set skippedReasons = {''BufferFull'', ''Disabled'', ''Shutdown'',
        ''LastReparentTooRecent'', ''LastFailoverTooRecent''}
   \<and> distinct skippedReasons \<and> length skippedReasons = 5"
  by (simp add: reason_defs)

text \<open>
  C6. Every multi-counter of the buffer has Keyspace and ShardName as its first two
  labels; the counters that carry a third label are exactly \<open>stops\<close>,
  \<open>requestsEvicted\<close> and \<open>requestsSkipped\<close>, and that label is Reason; the seven other
  counters of the first declaration block (and the three last-failover gauges) carry
  the two labels Keyspace and ShardName and nothing else.
\<close>

theorem counter_label_sets:
  "map (take 2 \<circ> labels) bufferCounters = replicate 13 [''Keyspace'', ''ShardName'']
   \<and> filter (\<lambda>c. length (labels c) \<noteq> 2) bufferCounters = [stops, requestsEvicted, requestsSkipped]
   \<and> map labels [stops, requestsEvicted, requestsSkipped]
       = replicate 3 [''Keyspace'', ''ShardName'', ''Reason'']
   \<and> map labels [starts, failoverDurationSumMs, utilizationSum, utilizationDryRunSum,
         requestsBuffered, requestsBufferedDryRun, requestsDrained]
       = replicate 7 [''Keyspace'', ''ShardName'']
   \<and> distinct (map name bufferCounters)"
  by (simp add: bufferCounters_def counter_defs numeral_eq_Suc)

lemma initReasons_apply:
  "initReasons c statsKey reasons st =
     (\<lambda>k. if k \<in> (\<lambda>r. (name c, statsKey @ [r])) ` set reasons then Some 0 else st k)"
  unfolding initReasons_def
  by (induction reasons arbitrary: st) (auto simp: Set_counter_def fun_eq_iff)

text \<open>
  C8. For a stats key made of a keyspace and a shard name, \<open>initVariablesForShard\<close>
  stores 0 in \<open>starts\<close>, \<open>failoverDurationSumMs\<close>, \<open>utilizationSum\<close>,
  \<open>utilizationDryRunSum\<close>, \<open>requestsBuffered\<close>, \<open>requestsBufferedDryRun\<close> and
  \<open>requestsDrained\<close> at that key, and in \<open>stops\<close>, \<open>requestsEvicted\<close> and
  \<open>requestsSkipped\<close> at the key extended by each of their 3, 3 and 5 reasons: 18
  different label sets, and the value at every other label set is what it was.
\<close>

theorem initVariablesForShard_sets_zero:
  "(let touched =
        [(''BufferStarts'', [ks, sh]),
         (''BufferStops'', [ks, sh, ''NewMasterSeen'']),
         (''BufferStops'', [ks, sh, ''MaxDurationExceeded'']),
         (''BufferStops'', [ks, sh, ''Shutdown'']),
         (''BufferFailoverDurationSumMs'', [ks, sh]),
         (''BufferUtilizationSum'', [ks, sh]),
         (''BufferUtilizationDryRunSum'', [ks, sh]),
         (''BufferRequestsBuffered'', [ks, sh]),
         (''BufferRequestsBufferedDryRun'', [ks, sh]),
         (''BufferRequestsDrained'', [ks, sh]),
         (''BufferRequestsEvicted'', [ks, sh, ''ContextDone'']),
         (''BufferRequestsEvicted'', [ks, sh, ''BufferFull'']),
         (''BufferRequestsEvicted'', [ks, sh, ''WindowExceeded'']),
         (''BufferRequestsSkipped'', [ks, sh, ''BufferFull'']),
         (''BufferRequestsSkipped'', [ks, sh, ''Disabled'']),
         (''BufferRequestsSkipped'', [ks, sh, ''Shutdown'']),
         (''BufferRequestsSkipped'', [ks, sh, ''LastReparentTooRecent'']),
         (''BufferRequestsSkipped'', [ks, sh, ''LastFailoverTooRecent''])]
    in initVariablesForShard [ks, sh] st = (\<lambda>k. if k \<in> set touched then Some 0 else st k)
       \<and> distinct touched \<and> length touched = 18)"
  unfolding initVariablesForShard_def Let_def initReasons_apply
  by (auto simp: Set_counter_def fun_eq_iff counter_defs reason_defs)

section \<open>Properties of the action node\<close>

text \<open>
  C10. For every input \<open>data\<close> (and whatever the JSON decoder does): if
  \<open>ActionNodeFromJson(data, "")\<close> returns an error, \<open>ActionNodeCanBePurged(data)\<close>
  is true and \<open>ActionNodeIsStale(data)\<close> is false; if it returns a node, both
  functions return whether the State of that node differs from
  \<open>ACTION_STATE_RUNNING\<close>.
\<close>

theorem purge_and_stale_agreement:
  "(\<forall>e. ActionNodeFromJson dec data '''' = Inl e \<longrightarrow>
        ActionNodeCanBePurged dec data = True \<and> ActionNodeIsStale dec data = False)
   \<and> (\<forall>node. ActionNodeFromJson dec data '''' = Inr node \<longrightarrow>
        ActionNodeCanBePurged dec data = (State node \<noteq> ACTION_STATE_RUNNING)
        \<and> ActionNodeIsStale dec data = (State node \<noteq> ACTION_STATE_RUNNING))"
  by (simp add: ActionNodeCanBePurged_def ActionNodeIsStale_def)

theorem purge_and_stale_agreement_witness:
  "ActionNodeFromJson braceDecoder ''not json'' '''' = Inl (DecodeError ''invalid character'')
   \<and> ActionNodeCanBePurged braceDecoder ''not json'' = True
   \<and> ActionNodeIsStale braceDecoder ''not json'' = False
   \<and> (\<exists>node. ActionNodeFromJson braceDecoder ''{Running'' '''' = Inr node
        \<and> State node = ''Running'')
   \<and> ActionNodeCanBePurged braceDecoder ''{Running'' = False
   \<and> ActionNodeIsStale braceDecoder ''{Running'' = False
   \<and> (\<exists>node. ActionNodeFromJson braceDecoder ''{Done'' '''' = Inr node
        \<and> State node = ''Done'')
   \<and> ActionNodeCanBePurged braceDecoder ''{Done'' = True
   \<and> ActionNodeIsStale braceDecoder ''{Done'' = True"
  using purge_and_stale_agreement [of braceDecoder "''not json''"]
    purge_and_stale_agreement [of braceDecoder "''{Running''"]
    purge_and_stale_agreement [of braceDecoder "''{Done''"]
  by (simp add: ActionNodeFromJson_def braceDecoder_def argsAndReplyTypes_def decodeField_def
      ACTION_STATE_RUNNING_def TABLET_ACTION_PING_def)

section \<open>Properties of the workflow checkpoint\<close>

lemma digitVal_digitChar: "d < 10 \<Longrightarrow> digitVal (digitChar d) = d"
proof -
  assume "d < 10"
  then have "d \<in> {0, 1, 2, 3, 4, 5, 6, 7, 8, 9}" by auto
  then show ?thesis
    by (auto simp: digitVal_def digitChar_def)
qed

lemma digitsValue_snoc: "digitsValue (ds @ [c]) = 10 * digitsValue ds + digitVal c"
  by (simp add: digitsValue_def)

lemma digitsValue_digits: "digitsValue (digits n) = n"
proof (induction n rule: digits.induct)
  case (1 n)
  show ?case
  proof (cases "n < 10")
    case True
    then show ?thesis
      by (subst digits.simps) (simp add: digitsValue_def digitVal_digitChar)
  next
    case False
    with 1 have "digitsValue (digits (n div 10)) = n div 10" by simp
    with False show ?thesis
      by (subst digits.simps) (simp add: digitsValue_snoc digitVal_digitChar)
  qed
qed

lemma digits_inj: "digits m = digits n \<Longrightarrow> m = n"
  by (metis digitsValue_digits)

lemma sourceAndDestination_wellFormed:
  "wellFormed acc \<Longrightarrow> sourceAndDestination oss acc = Inr ss \<Longrightarrow> wellFormed ss"
  by (induction oss acc rule: sourceAndDestination.induct)
     (auto simp: wellFormed_def split: if_splits)

lemma findSourceAndDestinationShards_wellFormed:
  "findSourceAndDestinationShards overlapping = Inr ss \<Longrightarrow> wellFormed ss"
  using sourceAndDestination_wellFormed [of "[]"]
  by (auto simp: findSourceAndDestinationShards_def wellFormed_def split: sum.splits)

lemma countShards_eq:
  "wellFormed ss \<Longrightarrow>
   countShards a b ss = Inr (a + totalSourceShards ss, b + totalDestShards ss)"
  by (induction ss arbitrary: a b)
     (auto simp: wellFormed_def totalSourceShards_def totalDestShards_def)

lemma taskID_inj: "taskID i = taskID j \<Longrightarrow> i = j"
  by (auto simp: taskID_def FormatInt_def dest: digits_inj)

lemma makeTasks_eq:
  "wellFormed ss \<Longrightarrow> used + totalDestShards ss \<le> length vtworkers \<Longrightarrow>
   \<exists>tasks'. makeTasks vtworkers i used ss tasks = Inr tasks'
     \<and> (\<forall>j < length ss. \<exists>t. tasks' (taskID (i + j)) = Some t \<and> Task_Id t = taskID (i + j)
           \<and> Attributes t ''vtworkers'' =
               Some (Join (take (length (ss ! j ! 1))
                  (drop (used + totalDestShards (take j ss)) vtworkers)) '',''))
     \<and> (\<forall>k. k \<notin> taskID ` {i ..< i + length ss} \<longrightarrow> tasks' k = tasks k)"
proof (induction ss arbitrary: i used tasks)
  case Nil
  then show ?case by simp
next
  case (Cons s ss)
  let ?n = "length (s ! 1)"
  let ?t = "\<lparr>Task_Id = taskID i, Task_State = TaskNotStarted,
            Attributes = map_of [(''source_shards'', Join (s ! 0) '',''),
               (''destination_shards'', Join (s ! 1) '',''),
               (''vtworkers'', Join (take ?n (drop used vtworkers)) '','')]\<rparr>"
  from Cons.prems have wf: "wellFormed ss" and len: "2 \<le> length s"
    by (simp_all add: wellFormed_def)
  from Cons.prems have bound: "(used + ?n) + totalDestShards ss \<le> length vtworkers"
    by (simp add: totalDestShards_def)
  from Cons.IH [OF wf bound, of "i + 1" "tasks(taskID i \<mapsto> ?t)"]
  obtain tasks' where
    run: "makeTasks vtworkers (i + 1) (used + ?n) ss (tasks(taskID i \<mapsto> ?t)) = Inr tasks'"
    and each: "\<And>j. j < length ss \<Longrightarrow> \<exists>t. tasks' (taskID (i + 1 + j)) = Some t
           \<and> Task_Id t = taskID (i + 1 + j)
           \<and> Attributes t ''vtworkers'' =
               Some (Join (take (length (ss ! j ! 1))
                  (drop (used + ?n + totalDestShards (take j ss)) vtworkers)) '','')"
    and rest: "\<And>k. k \<notin> taskID ` {i + 1 ..< i + 1 + length ss} \<Longrightarrow>
           tasks' k = (tasks(taskID i \<mapsto> ?t)) k"
    by blast
  from len have ne: "\<not> length s \<le> 0" "\<not> length s \<le> 1"
    by auto
  have eq: "makeTasks vtworkers i used (s # ss) tasks = Inr tasks'"
    using ne bound run by simp
  have first: "tasks' (taskID i) = Some ?t"
  proof -
    have "taskID i \<notin> taskID ` {i + 1 ..< i + 1 + length ss}"
      by (auto dest: taskID_inj)
    from rest [OF this] show ?thesis by simp
  qed
  have all: "\<exists>t. tasks' (taskID (i + j)) = Some t \<and> Task_Id t = taskID (i + j)
           \<and> Attributes t ''vtworkers'' =
               Some (Join (take (length ((s # ss) ! j ! 1))
                  (drop (used + totalDestShards (take j (s # ss))) vtworkers)) '','')"
    if "j < length (s # ss)" for j
  proof (cases j)
    case 0
    with first show ?thesis by (simp add: totalDestShards_def)
  next
    case (Suc j')
    with that have "j' < length ss" by simp
    from each [OF this] Suc show ?thesis
      by (simp add: totalDestShards_def add.assoc)
  qed
  have other: "tasks' k = tasks k" if "k \<notin> taskID ` {i ..< i + length (s # ss)}" for k
  proof -
    from that have 1: "k \<notin> taskID ` {i + 1 ..< i + 1 + length ss}" and 2: "k \<noteq> taskID i"
      by auto
    from rest [OF 1] 2 show ?thesis by simp
  qed
  from eq all other show ?case by blast
qed

lemma totalDestShards_take_Suc:
  "i < length ss \<Longrightarrow>
   totalDestShards (take (Suc i) ss) = totalDestShards (take i ss) + length (ss ! i ! 1)"
  by (simp add: totalDestShards_def take_Suc_conv_app_nth)

lemma concat_workersOf:
  "n \<le> length ss \<Longrightarrow>
   concat (map (workersOf vtworkers ss) [0..<n]) = take (totalDestShards (take n ss)) vtworkers"
proof (induction n)
  case 0
  then show ?case by (simp add: totalDestShards_def)
next
  case (Suc n)
  then have "n < length ss" by simp
  with Suc show ?case
    by (simp add: totalDestShards_take_Suc workersOf_def take_add)
qed

lemma totalDestShards_take_le:
  "totalDestShards (take i ss) \<le> totalDestShards ss"
proof -
  have "totalDestShards ss = totalDestShards (take i ss) + totalDestShards (drop i ss)"
    unfolding totalDestShards_def
    by (metis append_take_drop_id map_append sum_list_append)
  then show ?thesis by simp
qed

lemma length_workersOf:
  assumes "i < length ss" "totalDestShards ss \<le> length vtworkers"
  shows "length (workersOf vtworkers ss i) = length (ss ! i ! 1)"
proof -
  from assms(1) have "totalDestShards (take i ss) + length (ss ! i ! 1) \<le> totalDestShards ss"
    using totalDestShards_take_le [of "Suc i" ss] by (simp add: totalDestShards_take_Suc)
  with assms(2) show ?thesis by (simp add: workersOf_def)
qed

text \<open>
  C9. For \<open>shardsToSplit\<close> whose elements each have a source and a destination
  component, \<open>initCheckpoint\<close> returns an error exactly when the total number of source
  shards or of destination shards is 0, or the number of vtworkers differs from the total
  number of destination shards, or \<open>minHealthyRdonlyTablets\<close> does not parse as an
  integer or parses to a value below destShards div sourceShards. Otherwise it returns a
  checkpoint: its tasks are exactly \<open>create_workflows/0\<close> ... \<open>create_workflows/(n-1)\<close>,
  one for each of the \<open>n\<close> elements of \<open>shardsToSplit\<close>; the vtworkers attribute of
  task \<open>i\<close> is the comma-joined slice of the vtworkers that starts where the slice of
  task \<open>i-1\<close> ends and has one worker for each destination shard of element \<open>i\<close>;
  the slices in task order concatenate to the whole list; and the setting
  \<open>workflows_count\<close> is \<open>n\<close> in decimal.
\<close>

theorem initCheckpoint_error_iff_and_tasks:
  "wellFormed shardsToSplit \<Longrightarrow>
   (let r = initCheckpoint keyspace vtworkers shardsToSplit minHealthyRdonlyTablets splitCmd
              splitDiffDestTabletType phaseEnableApprovals skipStartWorkflows;
        n = length shardsToSplit;
        sourceShards = totalSourceShards shardsToSplit;
        destShards = totalDestShards shardsToSplit
    in ((\<exists>msg. r = Inl (Errorf msg)) \<longleftrightarrow>
          (sourceShards = 0 \<or> destShards = 0 \<or> length vtworkers \<noteq> destShards
           \<or> (case Atoi minHealthyRdonlyTablets of
                 None \<Rightarrow> True
               | Some v \<Rightarrow> v < int (destShards div sourceShards))))
     \<and> ((\<forall>msg. r \<noteq> Inl (Errorf msg)) \<longrightarrow>
          (\<exists>cp. r = Inr cp
             \<and> dom (Tasks cp) = taskID ` {..<n} \<and> card (dom (Tasks cp)) = n
             \<and> (\<forall>i<n. \<exists>t. Tasks cp (taskID i) = Some t \<and> Task_Id t = taskID i
                   \<and> Attributes t ''vtworkers''
                       = Some (Join (workersOf vtworkers shardsToSplit i) '','')
                   \<and> length (workersOf vtworkers shardsToSplit i)
                       = length (shardsToSplit ! i ! 1))
             \<and> concat (map (workersOf vtworkers shardsToSplit) [0..<n]) = vtworkers
             \<and> Settings cp ''workflows_count'' = Some (FormatInt (int n)))))"
proof -
  assume wf: "wellFormed shardsToSplit"
  let ?r = "initCheckpoint keyspace vtworkers shardsToSplit minHealthyRdonlyTablets splitCmd
              splitDiffDestTabletType phaseEnableApprovals skipStartWorkflows"
  let ?n = "length shardsToSplit"
  let ?src = "totalSourceShards shardsToSplit"
  let ?dst = "totalDestShards shardsToSplit"
  let ?cond = "?src = 0 \<or> ?dst = 0 \<or> length vtworkers \<noteq> ?dst
           \<or> (case Atoi minHealthyRdonlyTablets of
                 None \<Rightarrow> True
               | Some v \<Rightarrow> v < int (?dst div ?src))"
  have count: "countShards 0 0 shardsToSplit = Inr (?src, ?dst)"
    using countShards_eq [OF wf, of 0 0] by simp
  have err: "\<exists>msg. ?r = Inl (Errorf msg)" if ?cond
    using that count by (auto simp: initCheckpoint_def Let_def split: option.splits)
  have ok: "\<exists>cp. ?r = Inr cp
             \<and> dom (Tasks cp) = taskID ` {..<?n} \<and> card (dom (Tasks cp)) = ?n
             \<and> (\<forall>i<?n. \<exists>t. Tasks cp (taskID i) = Some t \<and> Task_Id t = taskID i
                   \<and> Attributes t ''vtworkers''
                       = Some (Join (workersOf vtworkers shardsToSplit i) '','')
                   \<and> length (workersOf vtworkers shardsToSplit i)
                       = length (shardsToSplit ! i ! 1))
             \<and> concat (map (workersOf vtworkers shardsToSplit) [0..<?n]) = vtworkers
             \<and> Settings cp ''workflows_count'' = Some (FormatInt (int ?n))"
    if nc: "\<not> ?cond"
  proof -
    from nc have len: "length vtworkers = ?dst" and src: "?src \<noteq> 0" and dst: "?dst \<noteq> 0"
      by auto
    from nc obtain v where atoi: "Atoi minHealthyRdonlyTablets = Some v"
      and v: "\<not> v < int (?dst div ?src)"
      by (auto split: option.splits)
    from len have bound: "0 + ?dst \<le> length vtworkers" by simp
    from makeTasks_eq [OF wf bound, of 0 Map.empty]
    obtain tasks' where
      run: "makeTasks vtworkers 0 0 shardsToSplit Map.empty = Inr tasks'"
      and each: "\<And>j. j < ?n \<Longrightarrow> \<exists>t. tasks' (taskID j) = Some t \<and> Task_Id t = taskID j
           \<and> Attributes t ''vtworkers'' =
               Some (Join (workersOf vtworkers shardsToSplit j) '','')"
      and rest: "\<And>k. k \<notin> taskID ` {0 ..< ?n} \<Longrightarrow> tasks' k = None"
      unfolding workersOf_def by force
    let ?cp = "\<lparr>CodeVersion = codeVersion, Tasks = tasks',
        Settings = map_of
          [(''vtworkers'', Join vtworkers '',''),
           (''min_healthy_rdonly_tablets'', minHealthyRdonlyTablets),
           (''split_cmd'', splitCmd),
           (''split_diff_dest_tablet_type'', splitDiffDestTabletType),
           (''phase_enable_approvals'', phaseEnableApprovals),
           (''skip_start_workflows'', FormatBool skipStartWorkflows),
           (''workflows_count'', FormatInt (int ?n)),
           (''keyspace'', keyspace)]\<rparr>"
    have r: "?r = Inr ?cp"
      using count len src dst atoi v run by (simp add: initCheckpoint_def)
    have dom: "dom tasks' = taskID ` {..<?n}"
    proof
      show "dom tasks' \<subseteq> taskID ` {..<?n}"
        using rest by (fastforce simp: atLeast0LessThan)
      show "taskID ` {..<?n} \<subseteq> dom tasks'"
        using each by fastforce
    qed
    have "inj_on taskID {..<?n}"
      by (auto intro: inj_onI dest: taskID_inj)
    then have card: "card (dom tasks') = ?n"
      by (simp add: dom card_image)
    have lens: "length (workersOf vtworkers shardsToSplit i) = length (shardsToSplit ! i ! 1)"
      if "i < ?n" for i
      using length_workersOf [OF that, of vtworkers] len by simp
    have cat: "concat (map (workersOf vtworkers shardsToSplit) [0..<?n]) = vtworkers"
      using concat_workersOf [of ?n shardsToSplit vtworkers] len by simp
    have wc: "Settings ?cp ''workflows_count'' = Some (FormatInt (int ?n))"
      by simp
    from r dom card each lens cat wc show ?thesis
      by (intro exI [of _ ?cp]) (simp del: map_of.simps)
  qed
  have noerr: "\<not> ?cond \<Longrightarrow> \<forall>msg. ?r \<noteq> Inl (Errorf msg)"
    using ok by fastforce
  from err ok noerr show ?thesis
    unfolding Let_def by blast
qed

theorem initCheckpoint_error_iff_and_tasks_witness:
  "wellFormed [[[''-80''], [''-40'', ''40-80'']], [[''80-''], [''80-c0'', ''c0-'']]]
   \<and> (\<exists>cp. initCheckpoint ''ks'' [''w1'', ''w2'', ''w3'', ''w4'']
              [[[''-80''], [''-40'', ''40-80'']], [[''80-''], [''80-c0'', ''c0-'']]]
              ''2'' ''SplitClone'' ''RDONLY'' '''' True = Inr cp
         \<and> card (dom (Tasks cp)) = 2
         \<and> (\<exists>t. Tasks cp ''create_workflows/1'' = Some t
               \<and> Attributes t ''vtworkers'' = Some ''w3,w4'')
         \<and> Settings cp ''workflows_count'' = Some ''2'')
   \<and> (\<exists>msg. initCheckpoint ''ks'' [''w1'', ''w2'', ''w3'', ''w4'']
              [[[''-80''], [''-40'', ''40-80'']], [[''80-''], [''80-c0'', ''c0-'']]]
              ''1'' ''SplitClone'' ''RDONLY'' '''' True = Inl (Errorf msg))"
proof -
  let ?ss = "[[[''-80''], [''-40'', ''40-80'']], [[''80-''], [''80-c0'', ''c0-'']]]"
  let ?ws = "[''w1'', ''w2'', ''w3'', ''w4'']"
  have wf: "wellFormed ?ss"
    by (simp add: wellFormed_def)
  have tot: "totalSourceShards ?ss = 2" "totalDestShards ?ss = 4"
    by (simp_all add: totalSourceShards_def totalDestShards_def)
  have atoi: "Atoi ''2'' = Some 2" "Atoi ''1'' = Some 1"
    by (simp_all add: Atoi_def digitsValue_def digitVal_def isDigit_def)
  have fmt: "FormatInt (int (length ?ss)) = ''2''" "taskID 1 = ''create_workflows/1''"
    by (simp_all add: FormatInt_def taskID_def phaseName_def digits.simps digitChar_def)
  have w: "workersOf ?ws ?ss 1 = [''w3'', ''w4'']"
    by (simp add: workersOf_def totalDestShards_def)
  have j: "Join [''w3'', ''w4''] '','' = ''w3,w4''"
    by (simp add: Join_def)
  note ok = initCheckpoint_error_iff_and_tasks
    [OF wf, of "''ks''" ?ws "''2''" "''SplitClone''" "''RDONLY''" "''''" True,
     unfolded Let_def tot atoi]
  note bad = initCheckpoint_error_iff_and_tasks
    [OF wf, of "''ks''" ?ws "''1''" "''SplitClone''" "''RDONLY''" "''''" True,
     unfolded Let_def tot atoi]
  from ok [THEN conjunct1]
  have ne: "\<forall>msg. initCheckpoint ''ks'' ?ws ?ss ''2'' ''SplitClone'' ''RDONLY'' '''' True
      \<noteq> Inl (Errorf msg)"
    by simp
  from ok [THEN conjunct2, THEN mp, OF ne]
  obtain cp where
    cp: "initCheckpoint ''ks'' ?ws ?ss ''2'' ''SplitClone'' ''RDONLY'' '''' True = Inr cp"
    and card: "card (dom (Tasks cp)) = length ?ss"
    and each: "\<forall>i<length ?ss. \<exists>t. Tasks cp (taskID i) = Some t \<and> Task_Id t = taskID i
        \<and> Attributes t ''vtworkers'' = Some (Join (workersOf ?ws ?ss i) '','')
        \<and> length (workersOf ?ws ?ss i) = length (?ss ! i ! 1)"
    and wc: "Settings cp ''workflows_count'' = Some (FormatInt (int (length ?ss)))"
    by blast
  from each [THEN spec, of 1]
  have t1: "\<exists>t. Tasks cp ''create_workflows/1'' = Some t
      \<and> Attributes t ''vtworkers'' = Some ''w3,w4''"
    unfolding fmt w j by auto
  from wc have wc2: "Settings cp ''workflows_count'' = Some ''2''"
    unfolding fmt .
  from cp card t1 wc2
  have 1: "\<exists>cp. initCheckpoint ''ks'' ?ws ?ss ''2'' ''SplitClone'' ''RDONLY'' '''' True = Inr cp
         \<and> card (dom (Tasks cp)) = 2
         \<and> (\<exists>t. Tasks cp ''create_workflows/1'' = Some t
               \<and> Attributes t ''vtworkers'' = Some ''w3,w4'')
         \<and> Settings cp ''workflows_count'' = Some ''2''"
    by auto
  from bad [THEN conjunct1]
  have 2: "\<exists>msg. initCheckpoint ''ks'' ?ws ?ss ''1'' ''SplitClone'' ''RDONLY'' '''' True
      = Inl (Errorf msg)"
    by simp
  from wf 1 2 show ?thesis by blast
qed

section \<open>Properties of the failover buffer\<close>

lemma incr_proj [simp]:
  "buffer (incr c names w) = buffer w" "fired (incr c names w) = fired w"
  "counters (incr c names w) = Add_counter c names 1 (counters w)"
  by (simp_all add: incr_def)

lemma observe_proj [simp]:
  "buffer (observe c names v w) = buffer w" "fired (observe c names v w) = fired w"
  "counters (observe c names v w) = Add_counter c names v (counters w)"
  by (simp_all add: observe_def)

lemma deliver_proj [simp]:
  "buffer (deliver r oc w) = buffer w" "counters (deliver r oc w) = counters w"
  "fired (deliver r oc w) = fired w @ [r\<lparr>outcome := Some oc\<rparr>]"
  by (simp_all add: deliver_def)

lemma releaseAll_buffer:
  "buffer (releaseAll q w) = (if q = [] then buffer w else (buffer w)\<lparr>queue := []\<rparr>)"
  by (induction q arbitrary: w) auto

lemma releaseAll_fired:
  "fired (releaseAll q w) = fired w @ map (\<lambda>r. r\<lparr>outcome := Some Released\<rparr>) q"
  by (induction q arbitrary: w) auto

lemma evictAll_buffer:
  "buffer (evictAll q w) = (if q = [] then buffer w else (buffer w)\<lparr>queue := []\<rparr>)"
  by (induction q arbitrary: w) auto

lemma evictAll_fired:
  "fired (evictAll q w) = fired w @ map (\<lambda>r. r\<lparr>outcome := Some EvictedContextDone\<rparr>) q"
  by (induction q arbitrary: w) auto

lemma stopBuffering_buffer:
  "buffer (stopBuffering cfg reason now w) =
     (buffer w)\<lparr>state := Idle, startedAt := None, lastFailoverEnd := Some now\<rparr>"
  by (simp add: stopBuffering_def Let_def recordFailoverEnd_def)

lemma stopBuffering_fired: "fired (stopBuffering cfg reason now w) = fired w"
  by (simp add: stopBuffering_def Let_def)

lemma drain_buffer:
  "buffer (drain cfg reason now w) =
     (buffer w)\<lparr>state := Idle, queue := [], startedAt := None, lastFailoverEnd := Some now\<rparr>"
  by (simp add: drain_def Let_def stopBuffering_buffer releaseAll_buffer)

lemma drain_fired:
  "fired (drain cfg reason now w) =
     fired w @ map (\<lambda>r. r\<lparr>outcome := Some Released\<rparr>) (queue (buffer w))"
  by (simp add: drain_def Let_def stopBuffering_fired releaseAll_fired)

lemma shutdownBuffer_queue:
  "queue (buffer (shutdownBuffer cfg now w)) =
     (if state (buffer w) = Buffering then [] else queue (buffer w))"
  by (simp add: shutdownBuffer_def stopBuffering_buffer evictAll_buffer)

lemma RecordPrimaryObserved_queue:
  "length (queue (buffer (RecordPrimaryObserved cfg primaryTerm now w)))
     \<le> length (queue (buffer w))"
  by (simp add: RecordPrimaryObserved_def Let_def drain_buffer recordReparentSeen_def)

lemma timerFired_queue:
  "length (queue (buffer (timerFired cfg now w))) \<le> length (queue (buffer w))"
  by (simp add: timerFired_def drain_buffer)

lemma contextDone_queue:
  "length (queue (buffer (contextDone sig w))) \<le> length (queue (buffer w))"
  by (simp add: contextDone_def split: list.splits)

lemma startBuffering_queue [simp]:
  "queue (buffer (startBuffering cfg pol now w)) = queue (buffer w)"
  by (simp add: startBuffering_def)

lemma evictOldest_queue [simp]:
  "queue (buffer (evictOldest w)) = tl (queue (buffer w))"
  by (simp add: evictOldest_def split: list.splits)

lemma appendRequest_queue:
  "length (queue (buffer (snd (appendRequest now w)))) = Suc (length (queue (buffer w)))"
  by (simp add: appendRequest_def Let_def)

lemma enqueueAndWait_queue:
  assumes "length (queue (buffer w)) \<le> maxBufferSize cfg"
  shows "length (queue (buffer (snd (enqueueAndWait cfg pol now w)))) \<le> maxBufferSize cfg"
  using assms
  by (auto simp: enqueueAndWait_def Let_def appendRequest_queue neq_Nil_conv)

lemma step_queue_bound:
  assumes "length (queue (buffer w)) \<le> maxBufferSize cfg"
  shows "length (queue (buffer (step cfg pol ev w))) \<le> maxBufferSize cfg"
proof (cases ev)
  case (Enqueue now)
  with assms show ?thesis using enqueueAndWait_queue by simp
next
  case (PrimaryObserved primaryTerm now)
  with assms show ?thesis
    using RecordPrimaryObserved_queue [of cfg primaryTerm now w] by simp
next
  case (TimerFired now)
  with assms show ?thesis using timerFired_queue [of cfg now w] by simp
next
  case (ContextDone sig now)
  with assms show ?thesis using contextDone_queue [of sig w] by simp
next
  case (Shutdown now)
  with assms show ?thesis by (simp add: shutdownBuffer_queue)
qed

lemma run_queue_bound:
  "length (queue (buffer w)) \<le> maxBufferSize cfg \<Longrightarrow>
   length (queue (buffer (run cfg pol evs w))) \<le> maxBufferSize cfg"
  unfolding run_def
  by (induction evs arbitrary: w) (simp_all add: step_queue_bound)

text \<open>
  C2. In every state that a buffer reaches from its creation, by any sequence of
  enqueues and of the other events (a primary observed, the timer, a cancellation, a
  shutdown), the queue holds at most \<open>maxBufferSize\<close> requests. A history being any
  sequence of events, this is the bound at every instant of every history.
\<close>

theorem queue_never_exceeds_maxBufferSize:
  "length (queue (buffer (run cfg pol evs (newShardBuffer k st)))) \<le> maxBufferSize cfg"
  by (rule run_queue_bound) (simp add: newShardBuffer_def)

lemma clockMonotone_Cons:
  "clockMonotone t0 (ev # evs) \<longleftrightarrow> t0 \<le> eventTime ev \<and> clockMonotone (eventTime ev) evs"
  unfolding clockMonotone_def by auto

lemma startBuffering_proj [simp]:
  "shardKey (buffer (startBuffering cfg pol now w)) = shardKey (buffer w)"
  "nextSignal (buffer (startBuffering cfg pol now w)) = nextSignal (buffer w)"
  "fired (startBuffering cfg pol now w) = fired w"
  "state (buffer (startBuffering cfg pol now w)) = Buffering"
  by (simp_all add: startBuffering_def)

lemma evictOldest_proj [simp]:
  "shardKey (buffer (evictOldest w)) = shardKey (buffer w)"
  "nextSignal (buffer (evictOldest w)) = nextSignal (buffer w)"
  "state (buffer (evictOldest w)) = state (buffer w)"
  by (simp_all add: evictOldest_def split: list.splits)

lemma enqueueAndWait_queue_cases:
  "\<exists>r. enqueuedAt r = now
      \<and> queue (buffer (snd (enqueueAndWait cfg pol now w)))
           \<in> {queue (buffer w), queue (buffer w) @ [r], tl (queue (buffer w)) @ [r]}"
  by (rule exI [of _ "\<lparr>requestKey = shardKey (buffer w), enqueuedAt = now,
        releaseSignal = nextSignal (buffer w), outcome = None\<rparr>"])
     (simp add: enqueueAndWait_def Let_def appendRequest_def)

lemma other_steps_queue_cases:
  "queue (buffer (RecordPrimaryObserved cfg primaryTerm now w)) \<in> {queue (buffer w), []}"
  "queue (buffer (timerFired cfg now w)) \<in> {queue (buffer w), []}"
  "queue (buffer (shutdownBuffer cfg now w)) \<in> {queue (buffer w), []}"
  "queue (buffer (contextDone sig w)) = filter (\<lambda>r. releaseSignal r \<noteq> sig) (queue (buffer w))"
proof -
  show "queue (buffer (RecordPrimaryObserved cfg primaryTerm now w)) \<in> {queue (buffer w), []}"
    by (simp add: RecordPrimaryObserved_def Let_def drain_buffer recordReparentSeen_def)
  show "queue (buffer (timerFired cfg now w)) \<in> {queue (buffer w), []}"
    by (simp add: timerFired_def drain_buffer)
  show "queue (buffer (shutdownBuffer cfg now w)) \<in> {queue (buffer w), []}"
    by (simp add: shutdownBuffer_queue)
  show "queue (buffer (contextDone sig w)) = filter (\<lambda>r. releaseSignal r \<noteq> sig) (queue (buffer w))"
  proof (cases "filter (\<lambda>r. releaseSignal r = sig) (queue (buffer w))")
    case Nil
    then have "\<forall>r \<in> set (queue (buffer w)). releaseSignal r \<noteq> sig"
      by (simp add: filter_empty_conv)
    then have "filter (\<lambda>r. releaseSignal r \<noteq> sig) (queue (buffer w)) = queue (buffer w)"
      by simp
    with Nil show ?thesis by (simp add: contextDone_def)
  next
    case (Cons r rs)
    then show ?thesis by (simp add: contextDone_def)
  qed
qed

text \<open>The queue is in the order of the arrival times, none of them in the future.\<close>

lemma step_arrival_order:
  assumes "sorted (map enqueuedAt (queue (buffer w)))"
    and "\<forall>r \<in> set (queue (buffer w)). enqueuedAt r \<le> t"
    and "t \<le> eventTime ev"
  shows "sorted (map enqueuedAt (queue (buffer (step cfg pol ev w))))
    \<and> (\<forall>r \<in> set (queue (buffer (step cfg pol ev w))). enqueuedAt r \<le> eventTime ev)"
proof -
  let ?q = "queue (buffer w)"
  have tl_sorted: "sorted (map enqueuedAt (tl ?q))"
    using assms(1) by (cases ?q) simp_all
  have tl_le: "\<forall>r \<in> set (tl ?q). enqueuedAt r \<le> t"
    using assms(2) by (cases ?q) simp_all
  show ?thesis
  proof (cases ev)
    case (Enqueue now)
    from enqueueAndWait_queue_cases [of now cfg pol w]
    obtain r where r: "enqueuedAt r = now"
      and cases: "queue (buffer (snd (enqueueAndWait cfg pol now w)))
           \<in> {?q, ?q @ [r], tl ?q @ [r]}"
      by blast
    from cases r assms tl_sorted tl_le Enqueue show ?thesis
      by (fastforce simp: sorted_append)
  next
    case (PrimaryObserved primaryTerm now)
    with other_steps_queue_cases(1) [of cfg primaryTerm now w] assms show ?thesis
      by fastforce
  next
    case (TimerFired now)
    with other_steps_queue_cases(2) [of cfg now w] assms show ?thesis
      by fastforce
  next
    case (ContextDone sig now)
    with other_steps_queue_cases(4) [of sig w] assms show ?thesis
      by (fastforce simp: sorted_filter)
  next
    case (Shutdown now)
    with other_steps_queue_cases(3) [of cfg now w] assms show ?thesis
      by fastforce
  qed
qed

lemma run_arrival_order:
  assumes "sorted (map enqueuedAt (queue (buffer w)))"
    and "\<forall>r \<in> set (queue (buffer w)). enqueuedAt r \<le> t"
    and "clockMonotone t evs"
  shows "sorted (map enqueuedAt (queue (buffer (run cfg pol evs w))))"
  using assms
proof (induction evs arbitrary: w t)
  case Nil
  then show ?case by (simp add: run_def)
next
  case (Cons ev evs)
  from Cons.prems(3) have t: "t \<le> eventTime ev" and rest: "clockMonotone (eventTime ev) evs"
    by (simp_all add: clockMonotone_Cons)
  from step_arrival_order [OF Cons.prems(1,2) t, of cfg pol]
  have "sorted (map enqueuedAt (queue (buffer (step cfg pol ev w))))"
    and "\<forall>r \<in> set (queue (buffer (step cfg pol ev w))). enqueuedAt r \<le> eventTime ev"
    by simp_all
  from Cons.IH [OF this rest] show ?case
    by (simp add: run_def)
qed

lemma sorted_positions:
  assumes "sorted (map f q)" "r1 \<in> set q" "r2 \<in> set q" "f r1 < f r2"
  shows "\<exists>i j. i < j \<and> j < length q \<and> q ! i = r1 \<and> q ! j = r2"
proof -
  from assms(2) obtain i where i: "i < length q" "q ! i = r1"
    by (auto simp: in_set_conv_nth)
  from assms(3) obtain j where j: "j < length q" "q ! j = r2"
    by (auto simp: in_set_conv_nth)
  have "i < j"
  proof (rule ccontr)
    assume "\<not> i < j"
    then have "j \<le> i" by simp
    with assms(1) i(1) have "map f q ! j \<le> map f q ! i"
      by (simp add: sorted_iff_nth_mono del: nth_map)
    with i j assms(4) show False by simp
  qed
  with i j show ?thesis by blast
qed

text \<open>
  C3. In a state that a buffer reaches by a history whose clock does not go back: a drain
  fires the release signals of exactly the queued requests, in the order of the queue,
  and of two queued requests the one enqueued at the earlier time is released first (its
  signal has the smaller position among the fired ones); and when a live buffer is full,
  the enqueue that makes room evicts the front of the queue, which no queued request
  precedes in arrival time, and keeps the others in their order.
\<close>

theorem fifo_release_and_oldest_eviction:
  assumes "clockMonotone 0 evs" and "w = run cfg pol evs (newShardBuffer k st)"
  shows "(\<forall>r1 r2. r1 \<in> set (queue (buffer w)) \<and> r2 \<in> set (queue (buffer w))
             \<and> enqueuedAt r1 < enqueuedAt r2 \<longrightarrow>
           (\<exists>i j. i < j \<and> j < length (queue (buffer w))
              \<and> fired (drain cfg reason now w) ! (length (fired w) + i)
                  = r1\<lparr>outcome := Some Released\<rparr>
              \<and> fired (drain cfg reason now w) ! (length (fired w) + j)
                  = r2\<lparr>outcome := Some Released\<rparr>))
    \<and> fired (drain cfg reason now w)
        = fired w @ map (\<lambda>r. r\<lparr>outcome := Some Released\<rparr>) (queue (buffer w))
    \<and> (state (buffer w) = Buffering \<and> \<not> dryRun (buffer w)
         \<and> length (queue (buffer w)) = maxBufferSize cfg
         \<and> evictionAllowed pol \<and> queue (buffer w) \<noteq> [] \<longrightarrow>
        fired (snd (enqueueAndWait cfg pol now w))
          = fired w @ [(hd (queue (buffer w)))\<lparr>outcome := Some EvictedBufferFull\<rparr>]
        \<and> (\<forall>r \<in> set (queue (buffer w)). enqueuedAt (hd (queue (buffer w))) \<le> enqueuedAt r)
        \<and> butlast (queue (buffer (snd (enqueueAndWait cfg pol now w))))
            = tl (queue (buffer w)))"
proof -
  let ?q = "queue (buffer w)"
  have sorted: "sorted (map enqueuedAt ?q)"
    unfolding assms(2)
    by (rule run_arrival_order [OF _ _ assms(1)]) (simp_all add: newShardBuffer_def)
  have order: "\<exists>i j. i < j \<and> j < length ?q
              \<and> fired (drain cfg reason now w) ! (length (fired w) + i)
                  = r1\<lparr>outcome := Some Released\<rparr>
              \<and> fired (drain cfg reason now w) ! (length (fired w) + j)
                  = r2\<lparr>outcome := Some Released\<rparr>"
    if "r1 \<in> set ?q" "r2 \<in> set ?q" "enqueuedAt r1 < enqueuedAt r2" for r1 r2
  proof -
    from sorted_positions [OF sorted that]
    obtain i j where "i < j" "j < length ?q" "?q ! i = r1" "?q ! j = r2"
      by blast
    then show ?thesis
      by (intro exI [of _ i] exI [of _ j]) (simp add: drain_fired nth_append)
  qed
  have evict: "fired (snd (enqueueAndWait cfg pol now w))
          = fired w @ [(hd ?q)\<lparr>outcome := Some EvictedBufferFull\<rparr>]
        \<and> (\<forall>r \<in> set ?q. enqueuedAt (hd ?q) \<le> enqueuedAt r)
        \<and> butlast (queue (buffer (snd (enqueueAndWait cfg pol now w)))) = tl ?q"
    if "state (buffer w) = Buffering" "\<not> dryRun (buffer w)"
      "length ?q = maxBufferSize cfg" "evictionAllowed pol" "?q \<noteq> []"
  proof -
    from that(5) obtain r rest where q: "?q = r # rest"
      by (cases ?q) auto
    with sorted have oldest: "\<forall>x \<in> set ?q. enqueuedAt (hd ?q) \<le> enqueuedAt x"
      by auto
    from that q have "fired (snd (enqueueAndWait cfg pol now w))
          = fired w @ [(hd ?q)\<lparr>outcome := Some EvictedBufferFull\<rparr>]"
      and "butlast (queue (buffer (snd (enqueueAndWait cfg pol now w)))) = tl ?q"
      by (simp_all add: enqueueAndWait_def Let_def appendRequest_def evictOldest_def)
    with oldest show ?thesis by simp
  qed
  from order evict drain_fired [of cfg reason now w] show ?thesis
    by blast
qed

lemmas buffer_eval =
  run_def enqueueAndWait_def startBuffering_def appendRequest_def evictOldest_def
  shouldSkip_def tooRecent_def newShardBuffer_def incr_def observe_def deliver_def
  scenarioConfiguration_def dryRunConfiguration_def defaultPolicy_def request_def
  shardStatsKey_def Let_def

lemma twoParked_buffer:
  "buffer twoParked =
     \<lparr>shardKey = (''ks'', ''0''), state = Buffering, queue = [request 1 0, request 2 1],
      startedAt = Some 1, lastFailoverEnd = None, lastReparentSeen = None, dryRun = False,
      lastTerm = None, peak = 2, nextSignal = 2\<rparr>"
  and twoParked_fired: "fired twoParked = []"
  by (simp_all add: twoParked_def buffer_eval)

theorem fifo_release_and_oldest_eviction_witness:
  "clockMonotone 0 [Enqueue 1, Enqueue 2]
   \<and> queue (buffer twoParked) = [request 1 0, request 2 1]
   \<and> enqueuedAt (request 1 0) < enqueuedAt (request 2 1)
   \<and> fired (drain scenarioConfiguration stopFailoverEndDetected 5 twoParked)
       = [(request 1 0)\<lparr>outcome := Some Released\<rparr>, (request 2 1)\<lparr>outcome := Some Released\<rparr>]
   \<and> fired (snd (enqueueAndWait scenarioConfiguration defaultPolicy 5 twoParked))
       = [(request 1 0)\<lparr>outcome := Some EvictedBufferFull\<rparr>]"
proof -
  have mono: "clockMonotone 0 [Enqueue 1, Enqueue 2]"
    by (simp add: clockMonotone_def)
  note fifo = fifo_release_and_oldest_eviction
    [OF mono twoParked_def, of stopFailoverEndDetected 5]
  have full: "state (buffer twoParked) = Buffering \<and> \<not> dryRun (buffer twoParked)
         \<and> length (queue (buffer twoParked)) = maxBufferSize scenarioConfiguration
         \<and> evictionAllowed defaultPolicy \<and> queue (buffer twoParked) \<noteq> []"
    by (simp add: twoParked_buffer scenarioConfiguration_def defaultPolicy_def)
  from fifo [THEN conjunct2, THEN conjunct1]
  have 1: "fired (drain scenarioConfiguration stopFailoverEndDetected 5 twoParked)
       = [(request 1 0)\<lparr>outcome := Some Released\<rparr>, (request 2 1)\<lparr>outcome := Some Released\<rparr>]"
    by (simp add: twoParked_buffer twoParked_fired)
  from fifo [THEN conjunct2, THEN conjunct2, THEN mp, OF full, THEN conjunct1]
  have 2: "fired (snd (enqueueAndWait scenarioConfiguration defaultPolicy 5 twoParked))
       = [(request 1 0)\<lparr>outcome := Some EvictedBufferFull\<rparr>]"
    by (simp add: twoParked_buffer twoParked_fired)
  from mono 1 2 show ?thesis
    by (simp add: twoParked_buffer request_def)
qed

lemma Get_Add_counter:
  "Get_counter c names (Add_counter c' names' v st) =
     (if name c = name c' \<and> names = names' then Get_counter c names st + v
      else Get_counter c names st)"
  by (simp add: Get_counter_def Add_counter_def)

text \<open>
  C4. A call of \<open>enqueueAndWait\<close> in a dry-run episode does not park its caller: it
  returns \<open>NotBuffered\<close>, queues nothing and fires no signal, and the counter
  \<open>requestsBufferedDryRun\<close> of the shard goes up by exactly 1 while every other
  counter, and this counter at every other key, stays as it was. The same holds for the
  call that starts a dry-run episode from Idle (which counts the start as well).
\<close>

theorem dry_run_never_parks_and_counts_once:
  "(state (buffer w) = Buffering \<and> dryRun (buffer w) \<longrightarrow>
      fst (enqueueAndWait cfg pol now w) = NotBuffered
      \<and> queue (buffer (snd (enqueueAndWait cfg pol now w))) = queue (buffer w)
      \<and> fired (snd (enqueueAndWait cfg pol now w)) = fired w
      \<and> state (buffer (snd (enqueueAndWait cfg pol now w))) = Buffering
      \<and> dryRun (buffer (snd (enqueueAndWait cfg pol now w)))
      \<and> counters (snd (enqueueAndWait cfg pol now w))
          = Add_counter requestsBufferedDryRun (shardStatsKey (buffer w)) 1 (counters w)
      \<and> Get_counter requestsBufferedDryRun (shardStatsKey (buffer w))
            (counters (snd (enqueueAndWait cfg pol now w)))
          = Get_counter requestsBufferedDryRun (shardStatsKey (buffer w)) (counters w) + 1
      \<and> (\<forall>c names. (name c, names) \<noteq> (name requestsBufferedDryRun, shardStatsKey (buffer w))
            \<longrightarrow> Get_counter c names (counters (snd (enqueueAndWait cfg pol now w)))
                = Get_counter c names (counters w)))
   \<and> (state (buffer w) = Idle \<and> \<not> fst (shouldSkip cfg (buffer w) now)
        \<and> dryRunEnabled cfg \<and> \<not> promoted pol (buffer w) \<longrightarrow>
      fst (enqueueAndWait cfg pol now w) = NotBuffered
      \<and> queue (buffer (snd (enqueueAndWait cfg pol now w))) = queue (buffer w)
      \<and> fired (snd (enqueueAndWait cfg pol now w)) = fired w
      \<and> state (buffer (snd (enqueueAndWait cfg pol now w))) = Buffering
      \<and> dryRun (buffer (snd (enqueueAndWait cfg pol now w)))
      \<and> Get_counter requestsBufferedDryRun (shardStatsKey (buffer w))
            (counters (snd (enqueueAndWait cfg pol now w)))
          = Get_counter requestsBufferedDryRun (shardStatsKey (buffer w)) (counters w) + 1)"
proof -
  have running: "fst (enqueueAndWait cfg pol now w) = NotBuffered
      \<and> snd (enqueueAndWait cfg pol now w)
          = incr requestsBufferedDryRun (shardStatsKey (buffer w))
              (w\<lparr>buffer := (buffer w)\<lparr>peak := peak (buffer w) + 1\<rparr>\<rparr>)"
    if "state (buffer w) = Buffering" "dryRun (buffer w)"
    using that by (simp add: enqueueAndWait_def)
  have starting: "fst (enqueueAndWait cfg pol now w) = NotBuffered
      \<and> snd (enqueueAndWait cfg pol now w)
          = incr requestsBufferedDryRun (shardStatsKey (buffer w))
              (incr starts (shardStatsKey (buffer w))
                 (w\<lparr>buffer := (buffer w)\<lparr>state := Buffering, startedAt := Some now,
                        dryRun := True, peak := 1\<rparr>\<rparr>))"
    if "state (buffer w) = Idle" "\<not> fst (shouldSkip cfg (buffer w) now)"
      "dryRunEnabled cfg" "\<not> promoted pol (buffer w)"
    using that by (simp add: enqueueAndWait_def startBuffering_def incr_def shardStatsKey_def)
  have names: "name requestsBufferedDryRun \<noteq> name starts"
    by (simp add: counter_defs)
  show ?thesis
  proof (intro conjI impI)
    assume a: "state (buffer w) = Idle \<and> \<not> fst (shouldSkip cfg (buffer w) now)
        \<and> dryRunEnabled cfg \<and> \<not> promoted pol (buffer w)"
    with starting
    have s: "snd (enqueueAndWait cfg pol now w)
          = incr requestsBufferedDryRun (shardStatsKey (buffer w))
              (incr starts (shardStatsKey (buffer w))
                 (w\<lparr>buffer := (buffer w)\<lparr>state := Buffering, startedAt := Some now,
                        dryRun := True, peak := 1\<rparr>\<rparr>))"
      and f: "fst (enqueueAndWait cfg pol now w) = NotBuffered"
      by simp_all
    show "fst (enqueueAndWait cfg pol now w) = NotBuffered" by (rule f)
    show "queue (buffer (snd (enqueueAndWait cfg pol now w))) = queue (buffer w)"
      "fired (snd (enqueueAndWait cfg pol now w)) = fired w"
      "state (buffer (snd (enqueueAndWait cfg pol now w))) = Buffering"
      "dryRun (buffer (snd (enqueueAndWait cfg pol now w)))"
      by (simp_all add: s)
    show "Get_counter requestsBufferedDryRun (shardStatsKey (buffer w))
            (counters (snd (enqueueAndWait cfg pol now w)))
          = Get_counter requestsBufferedDryRun (shardStatsKey (buffer w)) (counters w) + 1"
      by (simp add: s Get_Add_counter names)
  next
    assume a: "state (buffer w) = Buffering \<and> dryRun (buffer w)"
    with running
    have s: "snd (enqueueAndWait cfg pol now w)
          = incr requestsBufferedDryRun (shardStatsKey (buffer w))
              (w\<lparr>buffer := (buffer w)\<lparr>peak := peak (buffer w) + 1\<rparr>\<rparr>)"
      and f: "fst (enqueueAndWait cfg pol now w) = NotBuffered"
      by simp_all
    show "fst (enqueueAndWait cfg pol now w) = NotBuffered" by (rule f)
    show "queue (buffer (snd (enqueueAndWait cfg pol now w))) = queue (buffer w)"
      "fired (snd (enqueueAndWait cfg pol now w)) = fired w"
      "dryRun (buffer (snd (enqueueAndWait cfg pol now w)))"
      "state (buffer (snd (enqueueAndWait cfg pol now w))) = Buffering"
      "counters (snd (enqueueAndWait cfg pol now w))
          = Add_counter requestsBufferedDryRun (shardStatsKey (buffer w)) 1 (counters w)"
      using a by (simp_all add: s)
    show "Get_counter requestsBufferedDryRun (shardStatsKey (buffer w))
            (counters (snd (enqueueAndWait cfg pol now w)))
          = Get_counter requestsBufferedDryRun (shardStatsKey (buffer w)) (counters w) + 1"
      by (simp add: s Get_Add_counter)
    show "\<forall>c names. (name c, names) \<noteq> (name requestsBufferedDryRun, shardStatsKey (buffer w))
            \<longrightarrow> Get_counter c names (counters (snd (enqueueAndWait cfg pol now w)))
                = Get_counter c names (counters w)"
      by (auto simp: s Get_Add_counter)
  qed
qed

lemma RecordPrimaryObserved_lastTerm:
  "\<exists>t0. lastTerm (buffer (RecordPrimaryObserved cfg primaryTerm now w)) = Some t0
      \<and> primaryTerm \<le> t0"
  by (auto simp: RecordPrimaryObserved_def Let_def drain_buffer recordReparentSeen_def
      split: option.splits)

lemma RecordPrimaryObserved_stale:
  "lastTerm (buffer w) = Some t0 \<Longrightarrow> primaryTerm \<le> t0 \<Longrightarrow>
   RecordPrimaryObserved cfg primaryTerm now w = w"
  by (simp add: RecordPrimaryObserved_def)

text \<open>
  C5. \<open>RecordPrimaryObserved\<close> with a term that is equal to or older than the last
  observed term changes nothing: not the buffer, not a counter, and no signal fires. On
  an Idle buffer no call drains or counts anything (a newer term is recorded, nothing
  else changes). And a second call, with the same or an older term and at any later
  time, changes nothing after the first: no second drain and no second count of the stop
  reason.
\<close>

theorem RecordPrimaryObserved_idempotent:
  "(\<forall>t0. lastTerm (buffer w) = Some t0 \<and> primaryTerm \<le> t0 \<longrightarrow>
       RecordPrimaryObserved cfg primaryTerm now w = w)
   \<and> (state (buffer w) = Idle \<longrightarrow>
       counters (RecordPrimaryObserved cfg primaryTerm now w) = counters w
       \<and> fired (RecordPrimaryObserved cfg primaryTerm now w) = fired w
       \<and> buffer (RecordPrimaryObserved cfg primaryTerm now w)
           = (buffer w)\<lparr>lastTerm :=
                lastTerm (buffer (RecordPrimaryObserved cfg primaryTerm now w))\<rparr>)
   \<and> (\<forall>olderTerm later. olderTerm \<le> primaryTerm \<longrightarrow>
       RecordPrimaryObserved cfg olderTerm later
           (RecordPrimaryObserved cfg primaryTerm now w)
         = RecordPrimaryObserved cfg primaryTerm now w)"
proof (intro conjI allI impI)
  fix t0
  assume "lastTerm (buffer w) = Some t0 \<and> primaryTerm \<le> t0"
  then show "RecordPrimaryObserved cfg primaryTerm now w = w"
    by (simp add: RecordPrimaryObserved_stale)
next
  assume idle: "state (buffer w) = Idle"
  then show "counters (RecordPrimaryObserved cfg primaryTerm now w) = counters w"
    and "fired (RecordPrimaryObserved cfg primaryTerm now w) = fired w"
    and "buffer (RecordPrimaryObserved cfg primaryTerm now w)
           = (buffer w)\<lparr>lastTerm :=
                lastTerm (buffer (RecordPrimaryObserved cfg primaryTerm now w))\<rparr>"
    by (simp_all add: RecordPrimaryObserved_def Let_def)
next
  fix olderTerm later
  assume le: "olderTerm \<le> primaryTerm"
  from RecordPrimaryObserved_lastTerm [of cfg primaryTerm now w]
  obtain t0 where "lastTerm (buffer (RecordPrimaryObserved cfg primaryTerm now w)) = Some t0"
    and "primaryTerm \<le> t0"
    by blast
  with le show "RecordPrimaryObserved cfg olderTerm later
           (RecordPrimaryObserved cfg primaryTerm now w)
         = RecordPrimaryObserved cfg primaryTerm now w"
    by (intro RecordPrimaryObserved_stale [of _ t0]) simp_all
qed

lemma releaseAll_counters:
  "name c \<noteq> name requestsDrained \<Longrightarrow>
   Get_counter c names (counters (releaseAll q w)) = Get_counter c names (counters w)"
  by (induction q arbitrary: w) (simp_all add: Get_Add_counter)


lemma releaseAll_key [simp]: "shardStatsKey (buffer (releaseAll q w)) = shardStatsKey (buffer w)"
  by (simp add: releaseAll_buffer shardStatsKey_def)

lemma evictAll_key [simp]: "shardStatsKey (buffer (evictAll q w)) = shardStatsKey (buffer w)"
  by (simp add: evictAll_buffer shardStatsKey_def)











lemma initReasons_zero:
  "\<forall>k. st k = None \<or> st k = Some 0 \<Longrightarrow>
   \<forall>k. initReasons c key reasons st k = None \<or> initReasons c key reasons st k = Some 0"
  by (simp add: initReasons_apply)

lemma Set_counter_zero:
  "\<forall>k. st k = None \<or> st k = Some 0 \<Longrightarrow>
   \<forall>k. Set_counter c key 0 st k = None \<or> Set_counter c key 0 st k = Some 0"
  by (simp add: Set_counter_def)

lemma initVariablesForShard_zero:
  "Get_counter c names (initVariablesForShard key Map.empty) = 0"
proof -
  have "\<forall>k. initVariablesForShard key Map.empty k = None
      \<or> initVariablesForShard key Map.empty k = Some 0"
    unfolding initVariablesForShard_def Let_def
    by (intro initReasons_zero Set_counter_zero) simp
  then have "initVariablesForShard key Map.empty (name c, names) = None
      \<or> initVariablesForShard key Map.empty (name c, names) = Some 0"
    by blast
  then show ?thesis
    by (auto simp: Get_counter_def)
qed

lemma dryRunStarted_buffer:
  "buffer dryRunStarted =
     \<lparr>shardKey = (''ks'', ''0''), state = Buffering, queue = [],
      startedAt = Some 1, lastFailoverEnd = None, lastReparentSeen = None, dryRun = True,
      lastTerm = None, peak = 1, nextSignal = 0\<rparr>"
  and dryRunStarted_fired: "fired dryRunStarted = []"
  by (simp_all add: dryRunStarted_def buffer_eval)

lemma dryRunStarted_count:
  "Get_counter requestsBufferedDryRun [''ks'', ''0''] (counters dryRunStarted) = 1"
  by (simp add: dryRunStarted_def buffer_eval Get_Add_counter initVariablesForShard_zero
      counter_defs)

theorem dry_run_never_parks_and_counts_once_witness:
  "state (buffer dryRunStarted) = Buffering \<and> dryRun (buffer dryRunStarted)
   \<and> fst (enqueueAndWait dryRunConfiguration defaultPolicy 2 dryRunStarted) = NotBuffered
   \<and> queue (buffer (snd (enqueueAndWait dryRunConfiguration defaultPolicy 2 dryRunStarted))) = []
   \<and> Get_counter requestsBufferedDryRun [''ks'', ''0'']
        (counters (snd (enqueueAndWait dryRunConfiguration defaultPolicy 2 dryRunStarted))) = 2
   \<and> state (buffer (newShardBuffer (''ks'', ''0'') Map.empty)) = Idle
   \<and> fst (enqueueAndWait dryRunConfiguration defaultPolicy 1
        (newShardBuffer (''ks'', ''0'') Map.empty)) = NotBuffered
   \<and> Get_counter requestsBufferedDryRun [''ks'', ''0'']
        (counters (snd (enqueueAndWait dryRunConfiguration defaultPolicy 1
           (newShardBuffer (''ks'', ''0'') Map.empty)))) = 1"
proof -
  let ?new = "newShardBuffer (''ks'', ''0'') Map.empty"
  have running: "state (buffer dryRunStarted) = Buffering \<and> dryRun (buffer dryRunStarted)"
    by (simp add: dryRunStarted_buffer)
  have starting: "state (buffer ?new) = Idle
      \<and> \<not> fst (shouldSkip dryRunConfiguration (buffer ?new) 1)
      \<and> dryRunEnabled dryRunConfiguration \<and> \<not> promoted defaultPolicy (buffer ?new)"
    by (simp add: buffer_eval)
  have key: "shardStatsKey (buffer dryRunStarted) = [''ks'', ''0'']"
    "shardStatsKey (buffer ?new) = [''ks'', ''0'']"
    by (simp_all add: dryRunStarted_buffer shardStatsKey_def newShardBuffer_def)
  have zero: "Get_counter requestsBufferedDryRun [''ks'', ''0''] (counters ?new) = 0"
    by (simp add: newShardBuffer_def initVariablesForShard_zero)
  note a = dry_run_never_parks_and_counts_once
    [of dryRunStarted dryRunConfiguration defaultPolicy 2, THEN conjunct1, THEN mp, OF running]
  note b = dry_run_never_parks_and_counts_once
    [of ?new dryRunConfiguration defaultPolicy 1, THEN conjunct2, THEN mp, OF starting]
  from a have a1: "fst (enqueueAndWait dryRunConfiguration defaultPolicy 2 dryRunStarted)
      = NotBuffered"
    and a2: "queue (buffer (snd (enqueueAndWait dryRunConfiguration defaultPolicy 2
        dryRunStarted))) = queue (buffer dryRunStarted)"
    and a3: "Get_counter requestsBufferedDryRun (shardStatsKey (buffer dryRunStarted))
        (counters (snd (enqueueAndWait dryRunConfiguration defaultPolicy 2 dryRunStarted)))
      = Get_counter requestsBufferedDryRun (shardStatsKey (buffer dryRunStarted))
          (counters dryRunStarted) + 1"
    by blast+
  from b have b1: "fst (enqueueAndWait dryRunConfiguration defaultPolicy 1 ?new) = NotBuffered"
    and b3: "Get_counter requestsBufferedDryRun (shardStatsKey (buffer ?new))
        (counters (snd (enqueueAndWait dryRunConfiguration defaultPolicy 1 ?new)))
      = Get_counter requestsBufferedDryRun (shardStatsKey (buffer ?new)) (counters ?new) + 1"
    by blast+
  from a3 have a3': "Get_counter requestsBufferedDryRun [''ks'', ''0'']
        (counters (snd (enqueueAndWait dryRunConfiguration defaultPolicy 2 dryRunStarted))) = 2"
    unfolding key dryRunStarted_count by simp
  from b3 have b3': "Get_counter requestsBufferedDryRun [''ks'', ''0'']
        (counters (snd (enqueueAndWait dryRunConfiguration defaultPolicy 1 ?new))) = 1"
    unfolding key zero by simp
  from a2 have a2': "queue (buffer (snd (enqueueAndWait dryRunConfiguration defaultPolicy 2
        dryRunStarted))) = []"
    by (simp add: dryRunStarted_buffer)
  from running starting a1 a2' a3' b1 b3' show ?thesis
    by blast
qed

theorem RecordPrimaryObserved_idempotent_witness:
  "state (buffer (RecordPrimaryObserved scenarioConfiguration 7 10 twoParked)) = Idle
   \<and> lastTerm (buffer (RecordPrimaryObserved scenarioConfiguration 7 10 twoParked)) = Some 7
   \<and> fired (RecordPrimaryObserved scenarioConfiguration 7 10 twoParked)
       = [(request 1 0)\<lparr>outcome := Some Released\<rparr>, (request 2 1)\<lparr>outcome := Some Released\<rparr>]
   \<and> RecordPrimaryObserved scenarioConfiguration 7 20
        (RecordPrimaryObserved scenarioConfiguration 7 10 twoParked)
       = RecordPrimaryObserved scenarioConfiguration 7 10 twoParked
   \<and> RecordPrimaryObserved scenarioConfiguration 5 20
        (RecordPrimaryObserved scenarioConfiguration 7 10 twoParked)
       = RecordPrimaryObserved scenarioConfiguration 7 10 twoParked
   \<and> counters (RecordPrimaryObserved scenarioConfiguration 9 30
        (RecordPrimaryObserved scenarioConfiguration 7 10 twoParked))
       = counters (RecordPrimaryObserved scenarioConfiguration 7 10 twoParked)"
proof -
  let ?w = "RecordPrimaryObserved scenarioConfiguration 7 10 twoParked"
  have buf: "buffer ?w =
     \<lparr>shardKey = (''ks'', ''0''), state = Idle, queue = [],
      startedAt = None, lastFailoverEnd = Some 10, lastReparentSeen = Some 10, dryRun = False,
      lastTerm = Some 7, peak = 2, nextSignal = 2\<rparr>"
    by (simp add: RecordPrimaryObserved_def Let_def drain_buffer twoParked_buffer
        recordReparentSeen_def)
  have fired: "fired ?w
       = [(request 1 0)\<lparr>outcome := Some Released\<rparr>, (request 2 1)\<lparr>outcome := Some Released\<rparr>]"
    by (simp add: RecordPrimaryObserved_def Let_def drain_fired twoParked_buffer
        twoParked_fired recordReparentSeen_def)
  have stale: "lastTerm (buffer ?w) = Some 7 \<and> (5::nat) \<le> 7"
    by (simp add: buf)
  have idle: "state (buffer ?w) = Idle"
    by (simp add: buf)
  note again = RecordPrimaryObserved_idempotent
    [of twoParked 7 scenarioConfiguration 10, THEN conjunct2, THEN conjunct2,
     THEN spec, THEN spec, THEN mp, of 7 20]
  note older = RecordPrimaryObserved_idempotent
    [of ?w 5 scenarioConfiguration 20, THEN conjunct1, THEN spec, THEN mp, OF stale]
  note newer = RecordPrimaryObserved_idempotent
    [of ?w 9 scenarioConfiguration 30, THEN conjunct2, THEN conjunct1, THEN mp, OF idle,
     THEN conjunct1]
  from again older newer buf fired show ?thesis
    by simp
qed

lemmas drain_eval =
  RecordPrimaryObserved_def timerFired_def drain_def stopBuffering_def
  recordReparentSeen_def recordFailoverEnd_def utilization_def episodeEnd_def

subsection \<open>Consistency of the reachable states\<close>

lemma consistent_new: "consistent (buffer (newShardBuffer k st))"
  by (simp add: consistent_def newShardBuffer_def)

lemma consistent_append:
  assumes "consistent (buffer w)" "state (buffer w) = Buffering" "\<not> dryRun (buffer w)"
  shows "consistent (buffer (snd (appendRequest now w)))"
  using assms by (simp add: consistent_def appendRequest_def Let_def)

lemma consistent_evictOldest:
  assumes "consistent (buffer w)" "state (buffer w) = Buffering" "\<not> dryRun (buffer w)"
  shows "consistent (buffer (evictOldest w))"
  using assms by (auto simp: consistent_def evictOldest_def split: list.splits)

lemma evictOldest_dryRun [simp]: "dryRun (buffer (evictOldest w)) = dryRun (buffer w)"
  by (simp add: evictOldest_def split: list.splits)

lemma consistent_startBuffering:
  assumes "consistent (buffer w)" "state (buffer w) = Idle"
  shows "consistent (buffer (startBuffering cfg pol now w))"
  using assms by (simp add: consistent_def startBuffering_def)

lemma consistent_dryRun_call:
  assumes "consistent (buffer w)"
  shows "consistent (buffer (incr c names (w\<lparr>buffer := (buffer w)\<lparr>peak := peak (buffer w) + 1\<rparr>\<rparr>)))"
  using assms by (auto simp: consistent_def)

lemma consistent_enqueue:
  assumes "consistent (buffer w)"
  shows "consistent (buffer (snd (enqueueAndWait cfg pol now w)))"
proof (cases "state (buffer w)")
  case Draining
  with assms show ?thesis by (simp add: consistent_def)
next
  case Idle
  let ?w1 = "startBuffering cfg pol now w"
  from assms Idle have c1: "consistent (buffer ?w1)"
    by (rule consistent_startBuffering)
  have s1: "state (buffer ?w1) = Buffering" by simp
  show ?thesis
  proof (cases "fst (shouldSkip cfg (buffer w) now)")
    case True
    with Idle assms show ?thesis by (simp add: enqueueAndWait_def)
  next
    case False
    with Idle show ?thesis
      using c1 s1 consistent_append [of ?w1 now] consistent_append [of "evictOldest ?w1" now]
        consistent_evictOldest [of ?w1] consistent_dryRun_call [of ?w1]
      by (simp add: enqueueAndWait_def Let_def)
  qed
next
  case Buffering
  with assms show ?thesis
    using consistent_append [of w now] consistent_append [of "evictOldest w" now]
      consistent_evictOldest [of w] consistent_dryRun_call [of w]
    by (simp add: enqueueAndWait_def Let_def)
qed

lemma consistent_step:
  assumes "consistent (buffer w)"
  shows "consistent (buffer (step cfg pol ev w))"
proof (cases ev)
  case (Enqueue now)
  with assms show ?thesis by (simp add: consistent_enqueue)
next
  case (PrimaryObserved primaryTerm now)
  with assms show ?thesis
    by (simp add: RecordPrimaryObserved_def Let_def consistent_def drain_buffer
        recordReparentSeen_def)
next
  case (TimerFired now)
  with assms show ?thesis
    by (simp add: timerFired_def consistent_def drain_buffer)
next
  case (ContextDone sig now)
  have len: "length (filter (\<lambda>r. releaseSignal r \<noteq> sig) (queue (buffer w)))
      \<le> length (queue (buffer w))"
    by simp
  from assms ContextDone len show ?thesis
    by (cases "filter (\<lambda>r. releaseSignal r = sig) (queue (buffer w))")
       (auto simp: contextDone_def consistent_def simp del: length_filter_le)
next
  case (Shutdown now)
  with assms show ?thesis
    by (simp add: shutdownBuffer_def consistent_def stopBuffering_buffer evictAll_buffer)
qed

lemma consistent_run:
  "consistent (buffer w) \<Longrightarrow> consistent (buffer (run cfg pol evs w))"
  unfolding run_def
  by (induction evs arbitrary: w) (simp_all add: consistent_step)

lemma reachable_consistent:
  "consistent (buffer (run cfg pol evs (newShardBuffer k st)))"
  by (rule consistent_run) (rule consistent_new)

subsection \<open>The utilization of an episode\<close>








subsection \<open>The end-to-end scenarios\<close>

text \<open>
  The end-to-end scenarios of the specification, run on the model. Scenario 7:
  "Enqueue R1, R2 (both park). Enqueue R3 while full - R1 evicted with BufferFull.
  RecordPrimaryObserved fires - R2 and R3 receive Released, buffer returns to Idle, stop
  reason NewMasterSeen recorded once."
\<close>

lemma scenario_evict_then_drain:
  "fired (run scenarioConfiguration defaultPolicy
       [Enqueue 1, Enqueue 2, Enqueue 3, PrimaryObserved 7 10]
       (newShardBuffer (''ks'', ''0'') Map.empty))
     = [(request 1 0)\<lparr>outcome := Some EvictedBufferFull\<rparr>,
        (request 2 1)\<lparr>outcome := Some Released\<rparr>,
        (request 3 2)\<lparr>outcome := Some Released\<rparr>]"
  "state (buffer (run scenarioConfiguration defaultPolicy
       [Enqueue 1, Enqueue 2, Enqueue 3, PrimaryObserved 7 10]
       (newShardBuffer (''ks'', ''0'') Map.empty))) = Idle"
  "Get_counter stops [''ks'', ''0'', ''NewMasterSeen'']
     (counters (run scenarioConfiguration defaultPolicy
       [Enqueue 1, Enqueue 2, Enqueue 3, PrimaryObserved 7 10]
       (newShardBuffer (''ks'', ''0'') Map.empty))) = 1"
  by (simp_all add: buffer_eval drain_eval releaseAll_buffer releaseAll_fired
      Get_Add_counter releaseAll_counters initVariablesForShard_zero counter_defs reason_defs)

text \<open>
  Scenario 8: "maxFailoverDuration=100ms. Enqueue R1 at t=0; no primary observed. At
  t=100ms, R1 receives Released (timeout fallback) and stop reason MaxDurationExceeded is
  recorded."
\<close>

lemma scenario_timeout:
  "fired (run scenarioConfiguration defaultPolicy [Enqueue 0, TimerFired 99, TimerFired 100]
       (newShardBuffer (''ks'', ''0'') Map.empty))
     = [(request 0 0)\<lparr>outcome := Some Released\<rparr>]"
  "fired (run scenarioConfiguration defaultPolicy [Enqueue 0, TimerFired 99]
       (newShardBuffer (''ks'', ''0'') Map.empty)) = []"
  "Get_counter stops [''ks'', ''0'', ''MaxDurationExceeded'']
     (counters (run scenarioConfiguration defaultPolicy [Enqueue 0, TimerFired 99, TimerFired 100]
       (newShardBuffer (''ks'', ''0'') Map.empty))) = 1"
  by (simp_all add: buffer_eval drain_eval releaseAll_buffer releaseAll_fired
      Get_Add_counter releaseAll_counters initVariablesForShard_zero counter_defs reason_defs)

text \<open>
  Scenario 9: "cooldown minTimeBetweenFailovers=1s; buffer just drained at t=0 with
  NewMasterSeen. A failure signal at t=0.5s yields NotBuffered with skip reason
  LastFailoverTooRecent; at t=1.2s it enters Buffering normally."
\<close>

lemma scenario_cooldown:
  "fst (enqueueAndWait scenarioConfiguration defaultPolicy 500
       (run scenarioConfiguration defaultPolicy [Enqueue 0, PrimaryObserved 1 0]
          (newShardBuffer (''ks'', ''0'') Map.empty))) = NotBuffered"
  "Get_counter requestsSkipped [''ks'', ''0'', ''LastFailoverTooRecent'']
     (counters (run scenarioConfiguration defaultPolicy
       [Enqueue 0, PrimaryObserved 1 0, Enqueue 500]
       (newShardBuffer (''ks'', ''0'') Map.empty))) = 1"
  "state (buffer (run scenarioConfiguration defaultPolicy
       [Enqueue 0, PrimaryObserved 1 0, Enqueue 500]
       (newShardBuffer (''ks'', ''0'') Map.empty))) = Idle"
  "state (buffer (run scenarioConfiguration defaultPolicy
       [Enqueue 0, PrimaryObserved 1 0, Enqueue 500, Enqueue 1200]
       (newShardBuffer (''ks'', ''0'') Map.empty))) = Buffering"
  by (simp_all add: buffer_eval drain_eval releaseAll_buffer releaseAll_fired
      Get_Add_counter releaseAll_counters initVariablesForShard_zero counter_defs reason_defs)

end
